theory Spec2Isabelle
  imports Complex_Main "HOL-Library.List_Lexorder" "HOL-Library.Product_Lexorder"
begin

section \<open>Python strings and cells\<close>

text \<open>
  A Python \<open>str\<close> is a sequence of Unicode code points; it is modelled as a list of
  natural numbers, compared lexicographically as Python compares strings. An ASCII
  literal of the script is written \<open>ascii ''...''\<close>; accented letters are given by their
  code point (233 is e-acute, 251 is u-circumflex).
\<close>

type_synonym ustring = "nat list"

definition ascii :: "string \<Rightarrow> ustring" where
  "ascii cs = map of_char cs"

text \<open>\<open>str.isspace\<close> per code point: the white space that \<open>str.strip()\<close> removes.\<close>

definition isspace :: "nat \<Rightarrow> bool" where
  "isspace c \<longleftrightarrow>
     (9 \<le> c \<and> c \<le> 13) \<or> (28 \<le> c \<and> c \<le> 32) \<or> c = 133 \<or> c = 160 \<or> c = 5760 \<or>
     (8192 \<le> c \<and> c \<le> 8202) \<or> c = 8232 \<or> c = 8233 \<or> c = 8239 \<or> c = 8287 \<or> c = 12288"

definition strip :: "ustring \<Rightarrow> ustring" where
  "strip s = rev (dropWhile isspace (rev (dropWhile isspace s)))"

text \<open>
  The decimal digits matched by \<open>\d\<close> and read by \<open>int\<close>. The model covers the ASCII
  digits; decimal digits of other scripts are outside it.
\<close>

definition isdigit :: "nat \<Rightarrow> bool" where
  "isdigit c \<longleftrightarrow> 48 \<le> c \<and> c \<le> 57"

text \<open>
  \<open>str.lower()\<close>, per code point, on Latin-1: A..Z and the accented capitals
  (192..222 without the multiplication sign 215) move up by 32. Code points beyond
  Latin-1 are left as they are in the model.
\<close>

definition lower_cp :: "nat \<Rightarrow> nat" where
  "lower_cp c =
     (if (65 \<le> c \<and> c \<le> 90) \<or> (192 \<le> c \<and> c \<le> 222 \<and> c \<noteq> 215) then c + 32 else c)"

definition lower :: "ustring \<Rightarrow> ustring" where
  "lower s = map lower_cp s"

text \<open>\<open>str(n)\<close> of a Python int: decimal digits, with a minus sign when negative.\<close>

fun digits_of :: "nat \<Rightarrow> ustring" where
  "digits_of n = (if n < 10 then [48 + n] else digits_of (n div 10) @ [48 + n mod 10])"

declare digits_of.simps [simp del]

definition str_of_int :: "int \<Rightarrow> ustring" where
  "str_of_int i = (if i < 0 then 45 # digits_of (nat (- i)) else digits_of (nat i))"

text \<open>\<open>int(g)\<close> of a string of decimal digits.\<close>

definition int_of_digits :: "ustring \<Rightarrow> int" where
  "int_of_digits g = foldl (\<lambda>a c. 10 * a + int (c - 48)) 0 g"

text \<open>
  A spreadsheet cell as the script reads it: missing (\<open>NaN\<close>), a whole number or text.
\<close>

datatype cell = Null | IntC int | StrC ustring

fun str_of_cell :: "cell \<Rightarrow> ustring" where
  "str_of_cell Null = ascii ''nan''"
| "str_of_cell (IntC i) = str_of_int i"
| "str_of_cell (StrC s) = s"

section \<open>The month resolver\<close>

definition LABELS_MOIS_FR :: "ustring list" where
  "LABELS_MOIS_FR =
     [ascii ''Jan'', [70, 233, 118], ascii ''Mar'', ascii ''Avr'', ascii ''Mai'', ascii ''Juin'',
      ascii ''Juil'', [65, 111, 251], ascii ''Sept'', ascii ''Oct'', ascii ''Nov'', [68, 233, 99]]"

definition LABELS_MOIS_ASCII :: "ustring list" where
  "LABELS_MOIS_ASCII =
     [ascii ''Jan'', ascii ''Fev'', ascii ''Mars'', ascii ''Avr'', ascii ''Mai'', ascii ''Juin'',
      ascii ''Juil'', ascii ''Aout'', ascii ''Sept'', ascii ''Oct'', ascii ''Nov'', ascii ''Dec'']"

text \<open>The group of \<open>re.match(r"^(\d{1,2})", s)\<close>: one or two leading digits, greedily.\<close>

definition re_match_digits :: "ustring \<Rightarrow> ustring option" where
  "re_match_digits s =
     (let g = takeWhile isdigit (take 2 s) in if g = [] then None else Some g)"

definition mapping :: "(ustring \<times> int) list" where
  "mapping =
     [(ascii ''jan'', 1), ([102, 233, 118], 2), (ascii ''fev'', 2), (ascii ''mar'', 3),
      (ascii ''avr'', 4), (ascii ''mai'', 5), (ascii ''jun'', 6), (ascii ''jui'', 7),
      ([97, 111, 251], 8), (ascii ''aou'', 8), (ascii ''sep'', 9), (ascii ''oct'', 10),
      (ascii ''nov'', 11), ([100, 233, 99], 12), (ascii ''dec'', 12)]"

text \<open>\<open>month_from_long\<close>; \<open>None\<close> is the \<open>np.nan\<close> it returns.\<close>

definition month_from_long :: "cell \<Rightarrow> int option" where
  "month_from_long val =
     (if val = Null then None
      else let s = strip (str_of_cell val) in
        case re_match_digits s of
          Some g \<Rightarrow> Some (int_of_digits g)
        | None \<Rightarrow> (let base = take 3 (lower s) in map_of mapping base))"

section \<open>The dataset\<close>

text \<open>
  A value of a numeric column other than \<open>NaN\<close>: a finite number or an infinity. A finite
  64-bit float is a rational number, so comparing, sorting and truncating the month values
  is exact on \<open>rat\<close>. The order is that of the floats.
\<close>

datatype fnum = NegInf | Fin rat | PosInf

fun fnum_rank :: "fnum \<Rightarrow> int \<times> rat" where
  "fnum_rank NegInf = (- 1, 0)"
| "fnum_rank (Fin q) = (0, q)"
| "fnum_rank PosInf = (1, 0)"

instantiation fnum :: linorder
begin

definition less_eq_fnum :: "fnum \<Rightarrow> fnum \<Rightarrow> bool" where
  "less_eq_fnum a b \<longleftrightarrow> fnum_rank a \<le> fnum_rank b"

definition less_fnum :: "fnum \<Rightarrow> fnum \<Rightarrow> bool" where
  "less_fnum a b \<longleftrightarrow> fnum_rank a < fnum_rank b"

instance
proof
  fix x y z :: fnum
  show "x < y \<longleftrightarrow> x \<le> y \<and> \<not> y \<le> x"
    by (auto simp: less_eq_fnum_def less_fnum_def)
  show "x \<le> x"
    by (simp add: less_eq_fnum_def)
  show "x \<le> y \<Longrightarrow> y \<le> z \<Longrightarrow> x \<le> z"
    by (auto simp: less_eq_fnum_def)
  show "x \<le> y \<Longrightarrow> y \<le> x \<Longrightarrow> x = y"
    by (cases x; cases y) (auto simp: less_eq_fnum_def)
  show "x \<le> y \<or> y \<le> x"
    by (auto simp: less_eq_fnum_def)
qed

end

text \<open>
  One row of the loaded sheet. A field holds the row's value in the column of that
  name and is read only when the name is among the frame's \<open>columns\<close>. The entry month
  is heterogeneous (a cell); year, product, customer class and sales division may be
  missing (\<open>None\<close> is \<open>NaN\<close>); \<open>mois_num\<close> and \<open>mois_lbl_full\<close> are the columns the script adds.
\<close>

record row =
  Mois_saisie :: cell
  Mois_saisie_long :: cell
  Annee_saisie :: "int option"
  PRODUIT :: "ustring option"
  CLASSE_CLIENT :: "ustring option"
  DV :: "ustring option"
  un :: int
  mois_num :: "fnum option"
  mois_lbl_full :: ustring

record dataframe =
  columns :: "ustring list"
  rows :: "row list"

datatype error = KeyError ustring | IndexError | ValueError | OverflowError

subsection \<open>Library operations on columns\<close>

text \<open>
  \<open>pd.to_numeric(..., errors="coerce")\<close> on one cell. A missing cell stays \<open>NaN\<close> and a
  whole number keeps its value (a number of a spreadsheet is a float to begin with, so
  the float of the column holds it exactly). How text is read is the library's business
  and is a parameter \<open>p\<close> of the model: \<open>p t\<close> is the number read from the text \<open>t\<close>, and
  \<open>None\<close> when \<open>t\<close> is coerced to \<open>NaN\<close>.
\<close>

fun to_numeric :: "(ustring \<Rightarrow> fnum option) \<Rightarrow> cell \<Rightarrow> fnum option" where
  "to_numeric p Null = None"
| "to_numeric p (IntC i) = Some (Fin (of_int i))"
| "to_numeric p (StrC t) = p t"

text \<open>\<open>Series.unique()\<close>: the distinct values in order of first appearance.\<close>

definition unique :: "'a list \<Rightarrow> 'a list" where
  "unique xs = rev (remdups (rev xs))"

text \<open>
  \<open>groupby(key)[val].sum()\<close>: rows whose key is missing are dropped, the groups come
  sorted by key. \<open>groupby(key)[val].mean()\<close> likewise, with the mean of each group;
  the mean is the exact quotient, where the script has its 64-bit float.
\<close>

definition group_keys :: "('r \<Rightarrow> 'k::linorder option) \<Rightarrow> 'r list \<Rightarrow> 'k list" where
  "group_keys key rs = sort (remdups (List.map_filter key rs))"

definition group_vals :: "('r \<Rightarrow> 'k option) \<Rightarrow> ('r \<Rightarrow> 'v) \<Rightarrow> 'r list \<Rightarrow> 'k \<Rightarrow> 'v list" where
  "group_vals key val rs k = map val (filter (\<lambda>r. key r = Some k) rs)"

definition groupby_sum ::
  "('r \<Rightarrow> 'k::linorder option) \<Rightarrow> ('r \<Rightarrow> int) \<Rightarrow> 'r list \<Rightarrow> ('k \<times> int) list" where
  "groupby_sum key val rs = map (\<lambda>k. (k, sum_list (group_vals key val rs k))) (group_keys key rs)"

definition groupby_mean ::
  "('r \<Rightarrow> 'k::linorder option) \<Rightarrow> ('r \<Rightarrow> int) \<Rightarrow> 'r list \<Rightarrow> ('k \<times> rat) list" where
  "groupby_mean key val rs =
     map (\<lambda>k. (k, of_int (sum_list (group_vals key val rs k)) / of_nat (length (group_vals key val rs k))))
       (group_keys key rs)"

text \<open>
  \<open>Series.reindex(idx, fill_value=fill)\<close> of a series indexed by numbers: one entry per
  label of \<open>idx\<close>, in that order; labels of the series outside \<open>idx\<close> are dropped.
\<close>

definition reindex :: "int list \<Rightarrow> 'v \<Rightarrow> (fnum \<times> 'v) list \<Rightarrow> (int \<times> 'v) list" where
  "reindex idx fill s =
     map (\<lambda>m. (m, case map_of s (Fin (of_int m)) of Some v \<Rightarrow> v | None \<Rightarrow> fill)) idx"

text \<open>
  \<open>xs[i]\<close> on a Python list: positions \<open>0 .. len - 1\<close> from the front,
  \<open>-len .. -1\<close> from the back, \<open>IndexError\<close> elsewhere.
\<close>

definition list_get :: "'a list \<Rightarrow> int \<Rightarrow> error + 'a" where
  "list_get xs i =
     (if 0 \<le> i \<and> i < int (length xs) then Inr (xs ! nat i)
      else if - int (length xs) \<le> i \<and> i < 0 then Inr (xs ! nat (int (length xs) + i))
      else Inl IndexError)"

text \<open>
  \<open>int(x)\<close> of a finite number truncates towards zero (of an infinity it raises, see
  \<open>lbl_full\<close>); \<open>format(n, "02d")\<close> pads to width two.
\<close>

definition int_trunc :: "rat \<Rightarrow> int" where
  "int_trunc q = (if 0 \<le> q then \<lfloor>q\<rfloor> else \<lceil>q\<rceil>)"

definition fmt_02d :: "int \<Rightarrow> ustring" where
  "fmt_02d n = (if 0 \<le> n \<and> n < 10 then 48 # str_of_int n else str_of_int n)"

text \<open>Applying a function that may raise to every element, stopping at the first error.\<close>

fun map_raise :: "('a \<Rightarrow> error + 'b) \<Rightarrow> 'a list \<Rightarrow> error + 'b list" where
  "map_raise f [] = Inr []"
| "map_raise f (x # xs) =
     (case f x of
        Inl e \<Rightarrow> Inl e
      | Inr y \<Rightarrow> (case map_raise f xs of Inl e \<Rightarrow> Inl e | Inr ys \<Rightarrow> Inr (y # ys)))"

section \<open>Loading and normalising (lines 51 to 67)\<close>

definition has :: "dataframe \<Rightarrow> string \<Rightarrow> bool" where
  "has df c \<longleftrightarrow> ascii c \<in> set (columns df)"

text \<open>Assigning \<open>df[c] = ...\<close> keeps an existing column in place and appends a new one.\<close>

definition with_column :: "dataframe \<Rightarrow> string \<Rightarrow> ustring list" where
  "with_column df c = (if has df c then columns df else columns df @ [ascii c])"

definition normalise_columns :: "dataframe \<Rightarrow> dataframe" where
  "normalise_columns df = df\<lparr>columns := map strip (columns df)\<rparr>"

definition add_un :: "dataframe \<Rightarrow> dataframe" where
  "add_un df =
     (if \<not> has df ''un''
      then df\<lparr>columns := with_column df ''un'', rows := map (\<lambda>r. r\<lparr>un := 1\<rparr>) (rows df)\<rparr>
      else df)"

definition add_mois_num :: "(ustring \<Rightarrow> fnum option) \<Rightarrow> dataframe \<Rightarrow> dataframe" where
  "add_mois_num p df =
     (if has df ''Mois saisie''
      then df\<lparr>columns := with_column df ''mois_num'',
              rows := map (\<lambda>r. r\<lparr>mois_num := to_numeric p (Mois_saisie r)\<rparr>) (rows df)\<rparr>
      else if has df ''Mois saisie long''
      then df\<lparr>columns := with_column df ''mois_num'',
              rows := map (\<lambda>r. r\<lparr>mois_num := map_option (\<lambda>i. Fin (of_int i))
                                                    (month_from_long (Mois_saisie_long r))\<rparr>)
                        (rows df)\<rparr>
      else df)"

text \<open>
  The label of line 63: \<open>int\<close> of an infinity raises \<open>OverflowError\<close>, and the list access
  raises when the index is out of range.
\<close>

definition lbl_full :: "fnum option \<Rightarrow> error + ustring" where
  "lbl_full i =
     (case i of
        None \<Rightarrow> Inr []
      | Some NegInf \<Rightarrow> Inl OverflowError
      | Some PosInf \<Rightarrow> Inl OverflowError
      | Some (Fin q) \<Rightarrow>
          (case list_get LABELS_MOIS_ASCII (int_trunc q - 1) of
             Inl e \<Rightarrow> Inl e
           | Inr l \<Rightarrow> Inr (fmt_02d (int_trunc q) @ ascii '' - '' @ l)))"

definition add_mois_lbl_full :: "dataframe \<Rightarrow> error + dataframe" where
  "add_mois_lbl_full df =
     (if \<not> has df ''mois_num'' then Inl (KeyError (ascii ''mois_num''))
      else
        case map_raise (\<lambda>r. case lbl_full (mois_num r) of
                               Inl e \<Rightarrow> Inl e
                             | Inr l \<Rightarrow> Inr (r\<lparr>mois_lbl_full := l\<rparr>)) (rows df) of
          Inl e \<Rightarrow> Inl e
        | Inr rs \<Rightarrow> Inr (df\<lparr>columns := with_column df ''mois_lbl_full'', rows := rs\<rparr>))"

definition years_of :: "dataframe \<Rightarrow> error + int list" where
  "years_of df =
     (if \<not> has df ''Annee saisie'' then Inl (KeyError (ascii ''Annee saisie''))
      else Inr (sort (remdups (List.map_filter Annee_saisie (rows df)))))"

definition prods_of :: "dataframe \<Rightarrow> ustring list" where
  "prods_of df =
     (if has df ''PRODUIT'' then sort (remdups (List.map_filter PRODUIT (rows df))) else [])"

record session =
  df :: dataframe
  YEARS :: "int list"
  PRODS :: "ustring list"

definition load :: "(ustring \<Rightarrow> fnum option) \<Rightarrow> dataframe \<Rightarrow> error + session" where
  "load p raw =
     (case add_mois_lbl_full (add_mois_num p (add_un (normalise_columns raw))) of
        Inl e \<Rightarrow> Inl e
      | Inr d \<Rightarrow>
          (case years_of d of
             Inl e \<Rightarrow> Inl e
           | Inr ys \<Rightarrow> Inr \<lparr>df = d, YEARS = ys, PRODS = prods_of d\<rparr>))"

section \<open>Filter selection (lines 73 to 78)\<close>

record selection =
  sel_prods :: "ustring list"
  sel_year_bar :: int
  sel_year_line :: int
  sel_mean_years :: "int list"

text \<open>The defaults of the two multiselect widgets.\<close>

definition default_prods :: "ustring list \<Rightarrow> ustring list" where
  "default_prods prods = prods"

definition default_mean_years :: "int list \<Rightarrow> int list" where
  "default_mean_years years = filter (\<lambda>y. y \<in> set years) [2005, 2006]"

text \<open>\<open>astype(str)\<close> on the product column turns a missing value into the text \<open>nan\<close>.\<close>

definition astype_str :: "ustring option \<Rightarrow> ustring" where
  "astype_str v = (case v of None \<Rightarrow> ascii ''nan'' | Some s \<Rightarrow> s)"

definition df_filt :: "dataframe \<Rightarrow> ustring list \<Rightarrow> error + dataframe" where
  "df_filt d prods =
     (if prods \<noteq> []
      then (if \<not> has d ''PRODUIT'' then Inl (KeyError (ascii ''PRODUIT''))
            else Inr (d\<lparr>rows := filter (\<lambda>r. astype_str (PRODUIT r) \<in> set prods) (rows d)\<rparr>))
      else Inr d)"

section \<open>Aggregations (lines 82 to 127)\<close>

subsection \<open>Heatmap\<close>

record 'i pivot_table =
  pv_index :: "'i list"
  pv_columns :: "int list"
  pv_values :: "int option list list"

definition month_year_key :: "row \<Rightarrow> (fnum \<times> int) option" where
  "month_year_key r =
     (case mois_num r of
        None \<Rightarrow> None
      | Some m \<Rightarrow> (case Annee_saisie r of None \<Rightarrow> None | Some y \<Rightarrow> Some (m, y)))"

text \<open>
  The index of a series grouped by two keys has one level per key. A level holds the
  sorted distinct values of its key column over all the grouped rows, also the values
  whose rows fell in no group because the other key was missing.
\<close>

definition level_values :: "('r \<Rightarrow> 'k::linorder option) \<Rightarrow> 'r list \<Rightarrow> 'k list" where
  "level_values key rs = sort (remdups (List.map_filter key rs))"

text \<open>
  \<open>unstack\<close> first drops the unused values of each level
  (\<open>MultiIndex.remove_unused_levels\<close>): a level all of whose values occur in the index is
  kept as it is, and a level with an unused value is replaced by the values that occur,
  in order of first appearance in the index.
\<close>

definition remove_unused :: "'k list \<Rightarrow> 'k list \<Rightarrow> 'k list" where
  "remove_unused lev occurring = (if set lev \<subseteq> set occurring then lev else unique occurring)"

text \<open>
  \<open>unstack\<close> of a series indexed by (month, year), given the two levels of its index:
  months down, years across, each in the order of its level.
\<close>

definition unstack :: "fnum list \<Rightarrow> int list \<Rightarrow> ((fnum \<times> int) \<times> int) list \<Rightarrow> fnum pivot_table" where
  "unstack months years g =
     (let idx = remove_unused months (map (fst \<circ> fst) g);
          cols = remove_unused years (map (snd \<circ> fst) g)
      in \<lparr>pv_index = idx, pv_columns = cols,
          pv_values = map (\<lambda>m. map (\<lambda>y. map_of g (m, y)) cols) idx\<rparr>)"

text \<open>\<open>DataFrame.reindex(idx)\<close> on the rows: a label absent from the frame gives an empty row.\<close>

definition reindex_rows :: "int list \<Rightarrow> fnum pivot_table \<Rightarrow> int pivot_table" where
  "reindex_rows idx t =
     \<lparr>pv_index = idx, pv_columns = pv_columns t,
      pv_values = map (\<lambda>m. case map_of (zip (pv_index t) (pv_values t)) (Fin (of_int m)) of
                             Some vs \<Rightarrow> vs
                           | None \<Rightarrow> map (\<lambda>y. None) (pv_columns t)) idx\<rparr>"

definition pivot :: "dataframe \<Rightarrow> int pivot_table" where
  "pivot d =
     reindex_rows [1..12]
       (unstack (level_values mois_num (rows d)) (level_values Annee_saisie (rows d))
          (groupby_sum month_year_key un (rows d)))"

text \<open>What the heatmap shows: \<open>-pivot.fillna(0)\<close>.\<close>

definition fig1_z :: "int pivot_table \<Rightarrow> int list list" where
  "fig1_z p = map (map (\<lambda>c. - (case c of None \<Rightarrow> 0 | Some v \<Rightarrow> v))) (pv_values p)"

subsection \<open>Grouped bars\<close>

definition pair_key :: "(row \<Rightarrow> ustring option) \<Rightarrow> row \<Rightarrow> (ustring \<times> ustring) option" where
  "pair_key f r =
     (case f r of
        None \<Rightarrow> None
      | Some a \<Rightarrow> (case PRODUIT r of None \<Rightarrow> None | Some b \<Rightarrow> Some (a, b)))"

datatype component =
    Heatmap "int pivot_table" "int list list"
  | ClassProduct "((ustring \<times> ustring) \<times> int) list"
  | Comparison ustring "ustring list" "(int \<times> int) list" "(int \<times> int) list" "(int \<times> rat) list"
  | DivisionProduct "((ustring \<times> ustring) \<times> int) list"
  | Annexe "(ustring \<times> int) list"

text \<open>Lines 90 to 95 and 113 to 118: the components emitted, none when a column is absent.\<close>

definition fig2 :: "dataframe \<Rightarrow> component list" where
  "fig2 d =
     (if has d ''CLASSE_CLIENT'' \<and> has d ''PRODUIT''
      then [ClassProduct (groupby_sum (pair_key CLASSE_CLIENT) un (rows d))]
      else [])"

definition fig4 :: "dataframe \<Rightarrow> component list" where
  "fig4 d =
     (if has d ''DV'' \<and> has d ''PRODUIT''
      then [DivisionProduct (groupby_sum (pair_key DV) un (rows d))]
      else [])"

subsection \<open>Month comparison\<close>

text \<open>\<open>min\<close> and \<open>max\<close> of a Python list raise \<open>ValueError\<close> on the empty list.\<close>

definition py_min :: "int list \<Rightarrow> error + int" where
  "py_min xs = (case xs of [] \<Rightarrow> Inl ValueError | x # ys \<Rightarrow> Inr (fold min ys x))"

definition py_max :: "int list \<Rightarrow> error + int" where
  "py_max xs = (case xs of [] \<Rightarrow> Inl ValueError | x # ys \<Rightarrow> Inr (fold max ys x))"

definition title :: "selection \<Rightarrow> error + ustring" where
  "title sel =
     (case py_min (sel_mean_years sel) of
        Inl e \<Rightarrow> Inl e
      | Inr lo \<Rightarrow>
          (case py_max (sel_mean_years sel) of
             Inl e \<Rightarrow> Inl e
           | Inr hi \<Rightarrow>
               Inr (ascii ''Sorties '' @ str_of_int (sel_year_bar sel) @ ascii '', ''
                    @ str_of_int (sel_year_line sel) @ ascii '' et Moyenne d'' @ [233]
                    @ ascii ''missions '' @ str_of_int lo @ ascii ''-'' @ str_of_int hi)))"

definition serie :: "dataframe \<Rightarrow> int \<Rightarrow> (int \<times> int) list" where
  "serie d y =
     reindex [1..12] 0 (groupby_sum mois_num un (filter (\<lambda>r. Annee_saisie r = Some y) (rows d)))"

definition serie_bar :: "dataframe \<Rightarrow> selection \<Rightarrow> (int \<times> int) list" where
  "serie_bar d sel = serie d (sel_year_bar sel)"

definition serie_line :: "dataframe \<Rightarrow> selection \<Rightarrow> (int \<times> int) list" where
  "serie_line d sel = serie d (sel_year_line sel)"

definition year_month_key :: "row \<Rightarrow> (int \<times> fnum) option" where
  "year_month_key r =
     (case Annee_saisie r of
        None \<Rightarrow> None
      | Some y \<Rightarrow> (case mois_num r of None \<Rightarrow> None | Some m \<Rightarrow> Some (y, m)))"

definition isin :: "int option \<Rightarrow> int list \<Rightarrow> bool" where
  "isin v ys = (case v of None \<Rightarrow> False | Some y \<Rightarrow> y \<in> set ys)"

definition mean :: "dataframe \<Rightarrow> selection \<Rightarrow> (int \<times> rat) list" where
  "mean d sel =
     reindex [1..12] 0
       (groupby_mean (\<lambda>g. Some (snd (fst g))) snd
          (groupby_sum year_month_key un
             (filter (\<lambda>r. isin (Annee_saisie r) (sel_mean_years sel)) (rows d))))"

subsection \<open>Annex\<close>

definition annexe :: "(ustring \<times> int) list" where
  "annexe =
     [(ascii ''Sorties 2008 '' @ [8212] @ ascii '' '' @ [233] @ ascii ''cart'', - 133),
      (ascii ''Moyenne d'' @ [233] @ ascii ''missions 2005'' @ [8211] @ ascii ''2006 '' @ [8212]
         @ ascii '' '' @ [233] @ ascii ''cart'', 693),
      (ascii ''D'' @ [233] @ ascii ''missions 2007 '' @ [8212] @ ascii '' '' @ [233] @ ascii ''cart'', 613)]"

section \<open>One run of the script\<close>

text \<open>
  A run emits chart components in order until it ends or an exception stops it: the
  result is the components emitted and the exception, if any.
\<close>

definition render :: "session \<Rightarrow> selection \<Rightarrow> component list \<times> error option" where
  "render s sel =
     (case df_filt (df s) (sel_prods sel) of
        Inl e \<Rightarrow> ([], Some e)
      | Inr d \<Rightarrow>
          (let out = [Heatmap (pivot d) (fig1_z (pivot d))] @ fig2 d in
           case title sel of
             Inl e \<Rightarrow> (out, Some e)
           | Inr t \<Rightarrow>
               (out
                @ [Comparison t (unique (map mois_lbl_full (rows (df s))))
                     (serie_bar d sel) (serie_line d sel) (mean d sel)]
                @ fig4 d @ [Annexe annexe], None)))"

definition run ::
  "(ustring \<Rightarrow> fnum option) \<Rightarrow> dataframe \<Rightarrow> selection \<Rightarrow> component list \<times> error option" where
  "run p raw sel = (case load p raw of Inl e \<Rightarrow> ([], Some e) | Inr s \<Rightarrow> render s sel)"

section \<open>Reference quantities\<close>

text \<open>The sum of units of the records of year \<open>y\<close> whose resolved month is \<open>m\<close>.\<close>

definition month_sum :: "dataframe \<Rightarrow> int \<Rightarrow> int \<Rightarrow> int" where
  "month_sum d y m =
     sum_list (map un (filter (\<lambda>r. Annee_saisie r = Some y \<and> mois_num r = Some (Fin (of_int m))) (rows d)))"

text \<open>
  The selected years that have at least one record in month \<open>m\<close>, and the mean over a
  list of years of their sums for month \<open>m\<close>.
\<close>

definition years_with :: "dataframe \<Rightarrow> int list \<Rightarrow> int \<Rightarrow> int list" where
  "years_with d ys m =
     filter (\<lambda>y. \<exists>r\<in>set (rows d). Annee_saisie r = Some y \<and> mois_num r = Some (Fin (of_int m)))
       (remdups ys)"

definition mean_of_years :: "dataframe \<Rightarrow> int list \<Rightarrow> int \<Rightarrow> rat" where
  "mean_of_years d ys m = of_int (sum_list (map (\<lambda>y. month_sum d y m) ys)) / of_nat (length ys)"

text \<open>
  The flat mean of the units of the records of the selected years in month \<open>m\<close>.
\<close>

definition flat_mean :: "dataframe \<Rightarrow> int list \<Rightarrow> int \<Rightarrow> rat" where
  "flat_mean d ys m =
     (let vs = map un (filter (\<lambda>r. isin (Annee_saisie r) ys \<and> mois_num r = Some (Fin (of_int m))) (rows d))
      in of_int (sum_list vs) / of_nat (length vs))"

text \<open>
  The heatmap cell of month \<open>m\<close> and year \<open>y\<close>, empty when no record has that month and
  year, and the cell of a pivot table found by its row and column labels.
\<close>

definition cell_value :: "dataframe \<Rightarrow> int \<Rightarrow> int \<Rightarrow> int option" where
  "cell_value d m y =
     (if \<exists>r\<in>set (rows d). Annee_saisie r = Some y \<and> mois_num r = Some (Fin (of_int m))
      then Some (month_sum d y m) else None)"





text \<open>
  Text made of Latin letters and white space only, and text that spells an infinity.
  A reading of text respects words when it reads no number from text made of letters and
  white space, infinities apart; the library's reading does, since every numeral it
  accepts has a digit.
\<close>

definition is_letter :: "nat \<Rightarrow> bool" where
  "is_letter c \<longleftrightarrow>
     (65 \<le> c \<and> c \<le> 90) \<or> (97 \<le> c \<and> c \<le> 122) \<or> (192 \<le> c \<and> c \<le> 255 \<and> c \<noteq> 215 \<and> c \<noteq> 247)"

definition words_only :: "ustring \<Rightarrow> bool" where
  "words_only t = list_all (\<lambda>c. is_letter c \<or> isspace c) t"

definition infinity_text :: "ustring \<Rightarrow> bool" where
  "infinity_text t \<longleftrightarrow> lower (strip t) = ascii ''inf'' \<or> lower (strip t) = ascii ''infinity''"

definition respects_words :: "(ustring \<Rightarrow> fnum option) \<Rightarrow> bool" where
  "respects_words p \<longleftrightarrow> (\<forall>t. words_only t \<and> \<not> infinity_text t \<longrightarrow> p t = None)"

section \<open>Example datasets\<close>

text \<open>
  A reading of text for the examples. It reads the spellings of an infinity and the whole
  numerals of at most 15 digits, with an optional sign, as the library reads them, and
  coerces any other text to \<open>NaN\<close>. The library reads more numerals than these; the
  example sheets contain none of them.
\<close>

definition plain_number :: "ustring \<Rightarrow> fnum option" where
  "plain_number t =
     (let signed = (t \<noteq> [] \<and> (hd t = 45 \<or> hd t = 43));
          ds = (if signed then tl t else t)
      in if lower t \<in> set (map ascii [''inf'', ''infinity'', ''+inf'', ''+infinity''])
         then Some PosInf
         else if lower t \<in> set (map ascii [''-inf'', ''-infinity'']) then Some NegInf
         else if ds \<noteq> [] \<and> list_all isdigit ds \<and> length ds \<le> 15
         then Some (Fin (of_int ((if signed \<and> hd t = 45 then - 1 else 1) * int_of_digits ds)))
         else None)"

text \<open>A row with the given month cell, year, product and units, nothing else filled in.\<close>

definition mk_row :: "cell \<Rightarrow> int option \<Rightarrow> ustring option \<Rightarrow> int \<Rightarrow> row" where
  "mk_row m y p u =
     \<lparr>Mois_saisie = m, Mois_saisie_long = Null, Annee_saisie = y, PRODUIT = p,
      CLASSE_CLIENT = None, DV = None, un = u, mois_num = None, mois_lbl_full = []\<rparr>"

definition base_columns :: "ustring list" where
  "base_columns = [ascii ''Mois saisie'', ascii ''Annee saisie'', ascii ''PRODUIT'', ascii ''un'']"

text \<open>
  The scenario of the specification: month 1 of 2020 with product A (5 units) and
  product B (3 units), month 2 of 2020 with product A (2 units); no class or division.
\<close>

definition scenario :: dataframe where
  "scenario =
     \<lparr>columns = base_columns,
      rows = [mk_row (IntC 1) (Some 2020) (Some (ascii ''A'')) 5,
              mk_row (IntC 1) (Some 2020) (Some (ascii ''B'')) 3,
              mk_row (IntC 2) (Some 2020) (Some (ascii ''A'')) 2]\<rparr>"

definition select :: "ustring list \<Rightarrow> int list \<Rightarrow> selection" where
  "select prods years =
     \<lparr>sel_prods = prods, sel_year_bar = 2020, sel_year_line = 2020, sel_mean_years = years\<rparr>"

text \<open>The same sheet with a customer class and a sales division on every row.\<close>

definition scenario_full :: dataframe where
  "scenario_full =
     \<lparr>columns = base_columns @ [ascii ''CLASSE_CLIENT '', ascii ''DV''],
      rows = map (\<lambda>r. r\<lparr>CLASSE_CLIENT := Some (ascii ''3''), DV := Some (ascii ''N'')\<rparr>)
               (rows scenario)\<rparr>"

text \<open>
  A sheet whose numeric month column holds the text \<open>Janvier\<close>, the text \<open>7\<close>, the
  number 3 and a missing cell, and a sheet that has only the long month column, holding
  \<open>Janvier\<close>.
\<close>

definition text_months :: dataframe where
  "text_months =
     \<lparr>columns = [ascii ''Mois saisie'', ascii ''Mois saisie long'', ascii ''Annee saisie''],
      rows = [(mk_row (StrC (ascii ''Janvier'')) (Some 2020) None 1)
                \<lparr>Mois_saisie_long := StrC (ascii ''Janvier'')\<rparr>,
              mk_row (StrC (ascii ''7'')) (Some 2020) None 1,
              mk_row (IntC 3) (Some 2020) None 1,
              mk_row Null (Some 2020) None 1]\<rparr>"

definition long_months :: dataframe where
  "long_months =
     \<lparr>columns = [ascii ''Mois saisie long'', ascii ''Annee saisie''],
      rows = [(mk_row Null (Some 2020) None 1)
                \<lparr>Mois_saisie_long := StrC (ascii ''Janvier'')\<rparr>]\<rparr>"

text \<open>
  Frames as they stand after loading, the resolved month filled in: a row with the given
  resolved month, year, product and units.
\<close>

definition resolved_row :: "fnum option \<Rightarrow> int option \<Rightarrow> ustring option \<Rightarrow> int \<Rightarrow> row" where
  "resolved_row m y p u = (mk_row Null y p u)\<lparr>mois_num := m\<rparr>"

definition frame :: "row list \<Rightarrow> dataframe" where
  "frame rs = \<lparr>columns = base_columns @ [ascii ''mois_num'', ascii ''mois_lbl_full''], rows = rs\<rparr>"

text \<open>
  Two years whose sums for January are 4 and 6 (one record of 4 units, two of 3), and
  two years of which only the first has a record in January.
\<close>

definition two_years :: dataframe where
  "two_years =
     frame [resolved_row (Some (Fin 1)) (Some 2019) (Some (ascii ''A'')) 4,
            resolved_row (Some (Fin 1)) (Some 2020) (Some (ascii ''A'')) 3,
            resolved_row (Some (Fin 1)) (Some 2020) (Some (ascii ''B'')) 3]"

text \<open>
  The year 2021 occurs only on a record without month, and 2020 comes before 2019 in the
  order of the months.
\<close>

definition unused_year :: dataframe where
  "unused_year =
     frame [resolved_row (Some (Fin 1)) (Some 2020) (Some (ascii ''A'')) 1,
            resolved_row (Some (Fin 2)) (Some 2019) (Some (ascii ''A'')) 1,
            resolved_row None (Some 2021) (Some (ascii ''A'')) 1]"

definition gap_year :: dataframe where
  "gap_year =
     frame [resolved_row (Some (Fin 1)) (Some 2005) (Some (ascii ''A'')) 4,
            resolved_row (Some (Fin 2)) (Some 2006) (Some (ascii ''A'')) 6]"

text \<open>
  Sheets with a record whose month is missing, in a year of its own; with a record of
  month 0, in a year of its own; and with a record of month 13.
\<close>

definition no_month :: dataframe where
  "no_month =
     \<lparr>columns = base_columns,
      rows = [mk_row Null (Some 2019) (Some (ascii ''A'')) 1,
              mk_row (IntC 1) (Some 2020) (Some (ascii ''A'')) 4]\<rparr>"

definition month_zero :: dataframe where
  "month_zero =
     \<lparr>columns = base_columns,
      rows = [mk_row (IntC 0) (Some 1999) (Some (ascii ''A'')) 1,
              mk_row (IntC 1) (Some 2020) (Some (ascii ''A'')) 4]\<rparr>"

definition month_thirteen :: dataframe where
  "month_thirteen =
     \<lparr>columns = base_columns, rows = [mk_row (IntC 13) (Some 2020) (Some (ascii ''A'')) 1]\<rparr>"

text \<open>A sheet whose only record has the text \<open>inf\<close> for month.\<close>

definition month_infinite :: dataframe where
  "month_infinite =
     \<lparr>columns = base_columns,
      rows = [mk_row (StrC (ascii ''inf'')) (Some 2020) (Some (ascii ''A'')) 1]\<rparr>"

text \<open>
  A sheet with a record of month 0 in 1999, a record without month in 2019 and a record
  of January 2020, and the frame it is once loaded.
\<close>

definition odd_months :: dataframe where
  "odd_months =
     \<lparr>columns = base_columns,
      rows = [mk_row (IntC 0) (Some 1999) (Some (ascii ''A'')) 1,
              mk_row Null (Some 2019) (Some (ascii ''A'')) 7,
              mk_row (IntC 1) (Some 2020) (Some (ascii ''A'')) 4]\<rparr>"

definition odd_months_loaded :: dataframe where
  "odd_months_loaded =
     \<lparr>columns = base_columns @ [ascii ''mois_num'', ascii ''mois_lbl_full''],
      rows = [(mk_row (IntC 0) (Some 1999) (Some (ascii ''A'')) 1)
                \<lparr>mois_num := Some (Fin 0), mois_lbl_full := ascii ''00 - Dec''\<rparr>,
              (mk_row Null (Some 2019) (Some (ascii ''A'')) 7)
                \<lparr>mois_num := None, mois_lbl_full := []\<rparr>,
              (mk_row (IntC 1) (Some 2020) (Some (ascii ''A'')) 4)
                \<lparr>mois_num := Some (Fin 1), mois_lbl_full := ascii ''01 - Jan''\<rparr>]\<rparr>"

section \<open>Properties of the month resolver\<close>

lemmas str_defs =
  month_from_long_def ascii_def strip_def isspace_def re_match_digits_def isdigit_def
  lower_def lower_cp_def mapping_def int_of_digits_def

lemma lower_cp_idem: "lower_cp (lower_cp c) = lower_cp c"
  by (auto simp: lower_cp_def)

lemma isspace_lower_cp: "isspace (lower_cp c) = isspace c"
  by (auto simp: isspace_def lower_cp_def)

lemma isdigit_lower_cp: "isdigit (lower_cp c) = isdigit c"
  by (auto simp: isdigit_def lower_cp_def)

lemma lower_cp_digit: "isdigit c \<Longrightarrow> lower_cp c = c"
  by (auto simp: isdigit_def lower_cp_def)

lemma lower_idem: "lower (lower s) = lower s"
  by (simp add: lower_def lower_cp_idem)

lemma dropWhile_isspace_lower: "dropWhile isspace (lower s) = lower (dropWhile isspace s)"
  by (induction s) (simp_all add: lower_def isspace_lower_cp)

lemma rev_lower: "rev (lower s) = lower (rev s)"
  by (simp add: lower_def rev_map)

lemma strip_lower: "strip (lower s) = lower (strip s)"
  by (simp add: strip_def dropWhile_isspace_lower rev_lower)

lemma takeWhile_isdigit_lower: "takeWhile isdigit (lower s) = takeWhile isdigit s"
  by (induction s) (simp_all add: lower_def isdigit_lower_cp lower_cp_digit)

lemma take_lower: "take n (lower s) = lower (take n s)"
  by (simp add: lower_def take_map)

lemma re_match_digits_lower: "re_match_digits (lower s) = re_match_digits s"
  by (simp add: re_match_digits_def take_lower takeWhile_isdigit_lower)

lemma month_from_long_lower: "month_from_long (StrC (lower s)) = month_from_long (StrC s)"
  by (simp add: month_from_long_def Let_def strip_lower re_match_digits_lower lower_idem split: option.split)

lemma month_from_long_FR:
  "map (\<lambda>l. month_from_long (StrC (lower l))) LABELS_MOIS_FR =
     map Some [1, 2, 3, 4, 5, 7, 7, 8, 9, 10, 11, 12]"
  by (simp add: str_defs LABELS_MOIS_FR_def)

lemma month_from_long_ASCII:
  "map (\<lambda>l. month_from_long (StrC (lower l))) LABELS_MOIS_ASCII =
     map Some [1, 2, 3, 4, 5, 7, 7, 8, 9, 10, 11, 12]"
  by (simp add: str_defs LABELS_MOIS_ASCII_def)

lemma resolved_nth:
  "i < 12 \<Longrightarrow> [1, 2, 3, 4, 5, 7, 7, 8, 9, 10, 11, 12] ! i = (if i = 5 then 7 else int i + 1)"
  by (auto simp: less_Suc_eq numeral_eq_Suc nth_Cons')

lemma nth_of_map_eq:
  assumes "map f xs = map g ys" and "i < length xs" and "length ys = length xs"
  shows "f (xs ! i) = g (ys ! i)"
proof -
  have "map f xs ! i = map g ys ! i" using assms(1) by simp
  then show ?thesis using assms(2,3) by simp
qed

lemma label_resolves:
  assumes "i < 12"
    and "lower t = lower (LABELS_MOIS_FR ! i) \<or> lower t = lower (LABELS_MOIS_ASCII ! i)"
  shows "month_from_long (StrC t) = Some (if i = 5 then 7 else int i + 1)"
proof -
  have len: "i < length LABELS_MOIS_FR" "i < length LABELS_MOIS_ASCII"
    using assms(1) by (simp_all add: LABELS_MOIS_FR_def LABELS_MOIS_ASCII_def)
  have fr: "month_from_long (StrC (lower (LABELS_MOIS_FR ! i))) = Some (if i = 5 then 7 else int i + 1)"
    using nth_of_map_eq [OF month_from_long_FR len(1)] resolved_nth [OF assms(1)]
    by (simp add: LABELS_MOIS_FR_def)
  have asc: "month_from_long (StrC (lower (LABELS_MOIS_ASCII ! i))) = Some (if i = 5 then 7 else int i + 1)"
    using nth_of_map_eq [OF month_from_long_ASCII len(2)] resolved_nth [OF assms(1)]
    by (simp add: LABELS_MOIS_ASCII_def)
  have "month_from_long (StrC t) = month_from_long (StrC (lower t))"
    by (simp add: month_from_long_lower)
  with assms(2) fr asc show ?thesis by auto
qed

text \<open>
  C5. Each of the twelve month abbreviations of the script, in the accented list
  \<open>LABELS_MOIS_FR\<close> and in the unaccented list \<open>LABELS_MOIS_ASCII\<close>, written in any
  mix of upper and lower case, resolves to its own month number, except \<open>Juin\<close>
  (index 5), whose first three letters are the key of July and which resolves to 7.
\<close>

theorem month_from_long_canonical:
  assumes "i < 12"
    and "lower s = lower (LABELS_MOIS_FR ! i) \<or> lower s = lower (LABELS_MOIS_ASCII ! i)"
  shows "month_from_long (StrC s) = Some (if i = 5 then 7 else int i + 1)"
  using assms by (rule label_resolves)

theorem month_from_long_canonical_witness:
  "(1::nat) < 12 \<and> lower [70, 201, 86] = lower (LABELS_MOIS_FR ! 1)
   \<and> month_from_long (StrC [70, 201, 86]) = Some 2"
proof -
  have l: "lower [70, 201, 86] = lower (LABELS_MOIS_FR ! 1)"
    by (simp add: lower_def lower_cp_def LABELS_MOIS_FR_def)
  show ?thesis using month_from_long_canonical [of 1 "[70, 201, 86]"] l by simp
qed

section \<open>Properties of the filter stage\<close>

text \<open>
  C4. With an empty product selection the filter stage returns the whole dataset, so
  the result has as many records as the unfiltered dataset.
\<close>

theorem df_filt_empty_selection:
  "df_filt d [] = Inr d \<and> map_sum id (\<lambda>d'. length (rows d')) (df_filt d []) = Inr (length (rows d))"
  by (simp add: df_filt_def)

section \<open>Unfolding on concrete sheets\<close>

text \<open>
  The definitions that the simplifier unfolds to run the script on an example sheet.
\<close>

lemmas run_defs =
  run_def render_def load_def normalise_columns_def add_un_def add_mois_num_def
  add_mois_lbl_full_def lbl_full_def years_of_def prods_of_def has_def with_column_def
  df_filt_def astype_str_def pivot_def unstack_def reindex_rows_def fig1_z_def fig2_def fig4_def
  title_def py_min_def py_max_def serie_def serie_bar_def serie_line_def mean_def isin_def
  year_month_key_def month_year_key_def pair_key_def groupby_sum_def groupby_mean_def
  group_keys_def group_vals_def reindex_def unique_def list_get_def int_trunc_def fmt_02d_def
  str_of_int_def digits_of.simps level_values_def remove_unused_def List.map_filter_def
  LABELS_MOIS_ASCII_def less_eq_fnum_def less_fnum_def plain_number_def

lemmas example_defs =
  scenario_def scenario_full_def mk_row_def base_columns_def select_def text_months_def
  long_months_def resolved_row_def frame_def two_years_def gap_year_def unused_year_def no_month_def
  month_zero_def month_thirteen_def odd_months_def odd_months_loaded_def
  month_infinite_def

section \<open>Properties of the month column\<close>

lemma lower_cp_letter: "is_letter (lower_cp c) = is_letter c"
  by (auto simp: is_letter_def lower_cp_def)

lemma words_only_lower: "words_only (lower t) = words_only t"
  by (induction t) (simp_all add: words_only_def lower_def lower_cp_letter isspace_lower_cp)

lemma infinity_text_lower: "infinity_text (lower t) = infinity_text t"
  by (simp add: infinity_text_def strip_lower lower_idem)

lemma labels_are_words:
  "list_all (\<lambda>l. words_only (lower l) \<and> \<not> infinity_text (lower l)) LABELS_MOIS_FR"
  "list_all (\<lambda>l. words_only (lower l) \<and> \<not> infinity_text (lower l)) LABELS_MOIS_ASCII"
  by (simp_all add: LABELS_MOIS_FR_def LABELS_MOIS_ASCII_def words_only_def infinity_text_def
      is_letter_def str_defs)

lemma label_is_word:
  assumes "i < 12"
    and "lower t = lower (LABELS_MOIS_FR ! i) \<or> lower t = lower (LABELS_MOIS_ASCII ! i)"
  shows "words_only t \<and> \<not> infinity_text t"
proof -
  have len: "i < length LABELS_MOIS_FR" "i < length LABELS_MOIS_ASCII"
    using assms(1) by (simp_all add: LABELS_MOIS_FR_def LABELS_MOIS_ASCII_def)
  have "words_only (lower (LABELS_MOIS_FR ! i)) \<and> \<not> infinity_text (lower (LABELS_MOIS_FR ! i))"
    using labels_are_words(1) len(1) unfolding list_all_length by blast
  moreover have "words_only (lower (LABELS_MOIS_ASCII ! i)) \<and> \<not> infinity_text (lower (LABELS_MOIS_ASCII ! i))"
    using labels_are_words(2) len(2) unfolding list_all_length by blast
  ultimately have "words_only (lower t) \<and> \<not> infinity_text (lower t)"
    using assms(2) by auto
  then show ?thesis by (simp add: words_only_lower infinity_text_lower)
qed

lemma digit_not_word: "isdigit c \<Longrightarrow> \<not> (is_letter c \<or> isspace c)"
  by (auto simp: isdigit_def is_letter_def isspace_def)

lemma plain_number_respects_words: "respects_words plain_number"
  unfolding respects_words_def
proof (intro allI impI)
  fix t assume w: "words_only t \<and> \<not> infinity_text t"
  define ds where "ds = (if t \<noteq> [] \<and> (hd t = 45 \<or> hd t = 43) then tl t else t)"
  have wl: "words_only (lower t)" using w by (simp add: words_only_lower)
  have inf: "\<not> (strip (lower t) = ascii ''inf'' \<or> strip (lower t) = ascii ''infinity'')"
    using w by (simp add: infinity_text_def strip_lower)
  have signless: "lower t \<noteq> ascii ''inf''" "lower t \<noteq> ascii ''infinity''"
    using inf by (auto simp: str_defs)
  have signed: "lower t \<noteq> ascii ''+inf''" "lower t \<noteq> ascii ''+infinity''"
    "lower t \<noteq> ascii ''-inf''" "lower t \<noteq> ascii ''-infinity''"
    using wl by (auto simp: words_only_def is_letter_def isspace_def ascii_def)
  have sub: "set ds \<subseteq> set t"
    unfolding ds_def by (cases t) auto
  have "\<not> (ds \<noteq> [] \<and> list_all isdigit ds)"
  proof
    assume a: "ds \<noteq> [] \<and> list_all isdigit ds"
    then obtain c where c: "c \<in> set ds" "isdigit c"
      by (cases ds) (auto simp: list_all_iff)
    with sub w have "is_letter c \<or> isspace c"
      by (auto simp: words_only_def list_all_iff)
    with c(2) show False using digit_not_word by blast
  qed
  with signless signed show "plain_number t = None"
    by (auto simp: plain_number_def Let_def ds_def [symmetric])
qed

text \<open>
  C10. When the sheet has the column \<open>Mois saisie\<close>, the resolved month of every row is
  the numeric coercion of that column's cell and nothing else: a missing cell stays
  missing, a number keeps its value, text becomes what the library's reading makes of
  it. Under a reading that takes no number from words, a cell holding words that do not
  spell an infinity becomes unresolved; the month abbreviations of the script, in any
  case, are such words, although the abbreviation table resolves them. The table is
  used only when \<open>Mois saisie\<close> is absent and \<open>Mois saisie long\<close> is present; with neither
  column the frame is left as it is.
\<close>

theorem mois_saisie_coercion_only:
  "(has d ''Mois saisie'' \<longrightarrow>
      map mois_num (rows (add_mois_num p d))
        = map (\<lambda>r. case Mois_saisie r of
                      Null \<Rightarrow> None | IntC i \<Rightarrow> Some (Fin (of_int i)) | StrC t \<Rightarrow> p t) (rows d)
      \<and> (respects_words p \<longrightarrow>
           (\<forall>j<length (rows d). \<forall>t. Mois_saisie (rows d ! j) = StrC t
                \<and> words_only t \<and> \<not> infinity_text t
              \<longrightarrow> mois_num (rows (add_mois_num p d) ! j) = None)))
   \<and> (\<forall>i<12. \<forall>t. lower t = lower (LABELS_MOIS_FR ! i) \<or> lower t = lower (LABELS_MOIS_ASCII ! i)
         \<longrightarrow> words_only t \<and> \<not> infinity_text t \<and> month_from_long (StrC t) \<noteq> None)
   \<and> (\<not> has d ''Mois saisie'' \<and> has d ''Mois saisie long'' \<longrightarrow>
        map mois_num (rows (add_mois_num p d))
          = map (\<lambda>r. map_option (\<lambda>i. Fin (of_int i)) (month_from_long (Mois_saisie_long r))) (rows d))
   \<and> (\<not> has d ''Mois saisie'' \<and> \<not> has d ''Mois saisie long'' \<longrightarrow> add_mois_num p d = d)"
proof -
  have cell: "to_numeric p c = (case c of Null \<Rightarrow> None | IntC i \<Rightarrow> Some (Fin (of_int i)) | StrC t \<Rightarrow> p t)"
    for c by (cases c) simp_all
  have words: "mois_num (rows (add_mois_num p d) ! j) = None"
    if "has d ''Mois saisie''" "respects_words p" "j < length (rows d)"
      "Mois_saisie (rows d ! j) = StrC t" "words_only t \<and> \<not> infinity_text t" for j t
  proof -
    have "p t = None" using that(2,5) by (simp add: respects_words_def)
    with that(1,3,4) show ?thesis by (simp add: add_mois_num_def)
  qed
  have c1: "has d ''Mois saisie'' \<longrightarrow>
      map mois_num (rows (add_mois_num p d))
        = map (\<lambda>r. case Mois_saisie r of
                      Null \<Rightarrow> None | IntC i \<Rightarrow> Some (Fin (of_int i)) | StrC t \<Rightarrow> p t) (rows d)
      \<and> (respects_words p \<longrightarrow>
           (\<forall>j<length (rows d). \<forall>t. Mois_saisie (rows d ! j) = StrC t
                \<and> words_only t \<and> \<not> infinity_text t
              \<longrightarrow> mois_num (rows (add_mois_num p d) ! j) = None))"
  proof (intro impI conjI allI)
    assume h: "has d ''Mois saisie''"
    then show "map mois_num (rows (add_mois_num p d))
        = map (\<lambda>r. case Mois_saisie r of
                      Null \<Rightarrow> None | IntC i \<Rightarrow> Some (Fin (of_int i)) | StrC t \<Rightarrow> p t) (rows d)"
      by (simp add: add_mois_num_def comp_def cell)
    fix j t
    assume "respects_words p" "j < length (rows d)"
      "Mois_saisie (rows d ! j) = StrC t \<and> words_only t \<and> \<not> infinity_text t"
    with h show "mois_num (rows (add_mois_num p d) ! j) = None"
      using words [of j t] by simp
  qed
  have c2: "\<forall>i<12. \<forall>t. lower t = lower (LABELS_MOIS_FR ! i) \<or> lower t = lower (LABELS_MOIS_ASCII ! i)
         \<longrightarrow> words_only t \<and> \<not> infinity_text t \<and> month_from_long (StrC t) \<noteq> None"
  proof (intro allI impI)
    fix i :: nat and t
    assume "i < 12" "lower t = lower (LABELS_MOIS_FR ! i) \<or> lower t = lower (LABELS_MOIS_ASCII ! i)"
    then show "words_only t \<and> \<not> infinity_text t \<and> month_from_long (StrC t) \<noteq> None"
      using label_is_word [of i t] label_resolves [of i t] by simp
  qed
  have c3: "\<not> has d ''Mois saisie'' \<and> has d ''Mois saisie long'' \<longrightarrow>
        map mois_num (rows (add_mois_num p d))
          = map (\<lambda>r. map_option (\<lambda>i. Fin (of_int i)) (month_from_long (Mois_saisie_long r))) (rows d)"
    by (simp add: add_mois_num_def comp_def)
  have c4: "\<not> has d ''Mois saisie'' \<and> \<not> has d ''Mois saisie long'' \<longrightarrow> add_mois_num p d = d"
    by (simp add: add_mois_num_def)
  show ?thesis
    by (rule conjI [OF c1 conjI [OF c2 conjI [OF c3 c4]]])
qed

theorem mois_saisie_coercion_only_witness:
  "has text_months ''Mois saisie'' \<and> respects_words plain_number
   \<and> words_only (ascii ''Janvier'') \<and> \<not> infinity_text (ascii ''Janvier'')
   \<and> map mois_num (rows (add_mois_num plain_number text_months))
       = [None, Some (Fin 7), Some (Fin 3), None]
   \<and> month_from_long (StrC (ascii ''Janvier'')) = Some 1
   \<and> lower (ascii ''JUIL'') = lower (LABELS_MOIS_FR ! 6)
   \<and> words_only (ascii ''JUIL'') \<and> month_from_long (StrC (ascii ''JUIL'')) = Some 7
   \<and> \<not> has long_months ''Mois saisie'' \<and> has long_months ''Mois saisie long''
   \<and> map mois_num (rows (add_mois_num plain_number long_months)) = [Some (Fin 1)]"
proof -
  have j: "lower (ascii ''JUIL'') = lower (LABELS_MOIS_FR ! 6)"
    by (simp add: lower_def lower_cp_def LABELS_MOIS_FR_def ascii_def)
  have w: "words_only (ascii ''JUIL'') \<and> \<not> infinity_text (ascii ''JUIL'')
      \<and> month_from_long (StrC (ascii ''JUIL'')) \<noteq> None"
    using mois_saisie_coercion_only [of text_months plain_number, THEN conjunct2, THEN conjunct1,
        rule_format, of 6 "ascii ''JUIL''"] j
    by simp
  have m: "month_from_long (StrC (ascii ''JUIL'')) = Some 7"
    by (simp add: str_defs)
  have rest: "has text_months ''Mois saisie''
   \<and> words_only (ascii ''Janvier'') \<and> \<not> infinity_text (ascii ''Janvier'')
   \<and> map mois_num (rows (add_mois_num plain_number text_months))
       = [None, Some (Fin 7), Some (Fin 3), None]
   \<and> month_from_long (StrC (ascii ''Janvier'')) = Some 1
   \<and> \<not> has long_months ''Mois saisie'' \<and> has long_months ''Mois saisie long''
   \<and> map mois_num (rows (add_mois_num plain_number long_months)) = [Some (Fin 1)]"
    by (simp add: run_defs example_defs str_defs words_only_def infinity_text_def is_letter_def)
  from w m j rest plain_number_respects_words show ?thesis by simp
qed

section \<open>Properties of a run\<close>

lemma title_empty: "sel_mean_years sel = [] \<Longrightarrow> title sel = Inl ValueError"
  by (simp add: title_def py_min_def)

lemma title_nonempty: "sel_mean_years sel \<noteq> [] \<Longrightarrow> \<exists>t. title sel = Inr t"
  by (cases "sel_mean_years sel") (simp_all add: title_def py_min_def py_max_def)

lemma fig2_no_Comparison: "Comparison t x b l m \<notin> set (fig2 d)"
  by (simp add: fig2_def)

text \<open>
  C9. With an empty set of averaging years the run always ends in an exception: the
  one raised while loading or filtering if there is one, and otherwise the
  \<open>ValueError\<close> of \<open>min\<close> on an empty list at the comparison chart's title. No
  comparison chart is emitted. The default set of averaging years is empty exactly when
  neither 2005 nor 2006 is among the years of the dataset.
\<close>

theorem empty_mean_years_aborts:
  assumes "sel_mean_years sel = []"
  shows "snd (run p raw sel) =
           Some (case load p raw of
                   Inl e \<Rightarrow> e
                 | Inr s \<Rightarrow> (case df_filt (df s) (sel_prods sel) of Inl e \<Rightarrow> e | Inr d \<Rightarrow> ValueError))
         \<and> (\<forall>t x b l m. Comparison t x b l m \<notin> set (fst (run p raw sel)))
         \<and> (default_mean_years years = [] \<longleftrightarrow> 2005 \<notin> set years \<and> 2006 \<notin> set years)"
  using assms
  by (auto simp: run_def render_def title_empty fig2_no_Comparison default_mean_years_def
      split: sum.splits)

theorem empty_mean_years_aborts_witness:
  "sel_mean_years (select [] (default_mean_years [2020])) = []
   \<and> run plain_number scenario (select [] (default_mean_years [2020]))
       = ([Heatmap \<lparr>pv_index = [1 .. 12], pv_columns = [2020],
                    pv_values = [[Some 8], [Some 2], [None], [None], [None], [None], [None],
                                 [None], [None], [None], [None], [None]]\<rparr>
             [[- 8], [- 2], [0], [0], [0], [0], [0], [0], [0], [0], [0], [0]]],
          Some ValueError)"
  using empty_mean_years_aborts [where sel = "select [] (default_mean_years [2020])"
      and p = plain_number and raw = scenario and years = "[2020]"]
  by (simp add: run_defs example_defs str_defs default_mean_years_def upto.simps)

lemma df_filt_columns: "df_filt d p = Inr d' \<Longrightarrow> columns d' = columns d"
  by (auto simp: df_filt_def split: if_splits)

lemma add_un_has: "has (add_un d) c \<longleftrightarrow> has d c \<or> ascii c = ascii ''un''"
  by (auto simp: add_un_def with_column_def has_def)

lemma add_mois_num_has: "has (add_mois_num p d) c \<Longrightarrow> has d c \<or> ascii c = ascii ''mois_num''"
  by (auto simp: add_mois_num_def with_column_def has_def split: if_splits)

lemma add_mois_num_has': "has d c \<Longrightarrow> has (add_mois_num p d) c"
  by (auto simp: add_mois_num_def with_column_def has_def split: if_splits)

lemma add_mois_lbl_full_has:
  "add_mois_lbl_full d = Inr d' \<Longrightarrow> has d' c \<longleftrightarrow> has d c \<or> ascii c = ascii ''mois_lbl_full''"
  by (auto simp: add_mois_lbl_full_def with_column_def has_def split: if_splits sum.splits)

lemma load_df:
  "load p raw = Inr s \<Longrightarrow> add_mois_lbl_full (add_mois_num p (add_un (normalise_columns raw))) = Inr (df s)"
  by (auto simp: load_def split: sum.splits)

lemma load_has:
  assumes "load p raw = Inr s"
    and "ascii c \<notin> {ascii ''un'', ascii ''mois_num'', ascii ''mois_lbl_full''}"
  shows "has (df s) c = has (normalise_columns raw) c"
  using add_mois_lbl_full_has [OF load_df [OF assms(1)], of c] assms(2)
    add_mois_num_has [of p "add_un (normalise_columns raw)" c]
    add_mois_num_has' [of "add_un (normalise_columns raw)" c p]
    add_un_has [of "normalise_columns raw" c]
  by blast

lemma has_after_load:
  assumes "load p raw = Inr s" and "df_filt (df s) prods = Inr d"
  shows "has d ''CLASSE_CLIENT'' = has (normalise_columns raw) ''CLASSE_CLIENT''"
    and "has d ''DV'' = has (normalise_columns raw) ''DV''"
    and "has d ''PRODUIT'' = has (normalise_columns raw) ''PRODUIT''"
proof -
  have "has d c = has (df s) c" for c
    using df_filt_columns [OF assms(2)] by (simp add: has_def)
  moreover have "has (df s) ''CLASSE_CLIENT'' = has (normalise_columns raw) ''CLASSE_CLIENT''"
    by (rule load_has [OF assms(1)]) (simp add: ascii_def)
  moreover have "has (df s) ''DV'' = has (normalise_columns raw) ''DV''"
    by (rule load_has [OF assms(1)]) (simp add: ascii_def)
  moreover have "has (df s) ''PRODUIT'' = has (normalise_columns raw) ''PRODUIT''"
    by (rule load_has [OF assms(1)]) (simp add: ascii_def)
  ultimately show "has d ''CLASSE_CLIENT'' = has (normalise_columns raw) ''CLASSE_CLIENT''"
    and "has d ''DV'' = has (normalise_columns raw) ''DV''"
    and "has d ''PRODUIT'' = has (normalise_columns raw) ''PRODUIT''"
    by simp_all
qed

lemma run_load_error: "load p raw = Inl e \<Longrightarrow> run p raw sel = ([], Some e)"
  by (simp add: run_def)

lemma run_filter_error:
  "load p raw = Inr s \<Longrightarrow> df_filt (df s) (sel_prods sel) = Inl e \<Longrightarrow> run p raw sel = ([], Some e)"
  by (simp add: run_def render_def)

lemma run_title_error:
  "load p raw = Inr s \<Longrightarrow> df_filt (df s) (sel_prods sel) = Inr d \<Longrightarrow> title sel = Inl e \<Longrightarrow>
   run p raw sel = (Heatmap (pivot d) (fig1_z (pivot d)) # fig2 d, Some e)"
  by (simp add: run_def render_def)

lemma run_complete:
  "load p raw = Inr s \<Longrightarrow> df_filt (df s) (sel_prods sel) = Inr d \<Longrightarrow> title sel = Inr t \<Longrightarrow>
   run p raw sel =
     (Heatmap (pivot d) (fig1_z (pivot d)) # fig2 d
      @ Comparison t (unique (map mois_lbl_full (rows (df s))))
          (serie_bar d sel) (serie_line d sel) (mean d sel)
      # fig4 d @ [Annexe annexe], None)"
  by (simp add: run_def render_def)

lemma ClassProduct_fig2:
  "(\<exists>g. ClassProduct g \<in> set (fig2 d)) \<longleftrightarrow> has d ''CLASSE_CLIENT'' \<and> has d ''PRODUIT''"
  by (simp add: fig2_def)

lemma DivisionProduct_fig4:
  "(\<exists>g. DivisionProduct g \<in> set (fig4 d)) \<longleftrightarrow> has d ''DV'' \<and> has d ''PRODUIT''"
  by (simp add: fig4_def)

lemma ClassProduct_fig4: "ClassProduct g \<notin> set (fig4 d)"
  by (simp add: fig4_def)

lemma DivisionProduct_fig2: "DivisionProduct g \<notin> set (fig2 d)"
  by (simp add: fig2_def)

lemma gate_in_run:
  fixes p raw sel
  defines "cc \<equiv> has (normalise_columns raw) ''CLASSE_CLIENT'' \<and> has (normalise_columns raw) ''PRODUIT''"
    and "dv \<equiv> has (normalise_columns raw) ''DV'' \<and> has (normalise_columns raw) ''PRODUIT''"
    and "C \<equiv> \<exists>g. ClassProduct g \<in> set (fst (run p raw sel))"
    and "D \<equiv> \<exists>g. DivisionProduct g \<in> set (fst (run p raw sel))"
  shows "(C \<longrightarrow> cc) \<and> (D \<longrightarrow> dv) \<and> (snd (run p raw sel) = None \<longrightarrow> (C \<longleftrightarrow> cc) \<and> (D \<longleftrightarrow> dv))"
proof (cases "load p raw")
  case (Inl e)
  then show ?thesis unfolding C_def D_def by (simp add: run_load_error)
next
  case (Inr s)
  show ?thesis
  proof (cases "df_filt (df s) (sel_prods sel)")
    case (Inl e)
    with Inr show ?thesis unfolding C_def D_def by (simp add: run_filter_error)
  next
    case filt: (Inr d)
    note h = has_after_load [OF Inr filt]
    have c2: "(\<exists>g. ClassProduct g \<in> set (fig2 d)) \<longleftrightarrow> cc"
      unfolding cc_def by (simp only: ClassProduct_fig2 h)
    have d4: "(\<exists>g. DivisionProduct g \<in> set (fig4 d)) \<longleftrightarrow> dv"
      unfolding dv_def by (simp only: DivisionProduct_fig4 h)
    show ?thesis
    proof (cases "title sel")
      case (Inl e)
      have r: "run p raw sel = (Heatmap (pivot d) (fig1_z (pivot d)) # fig2 d, Some e)"
        by (rule run_title_error [OF Inr filt Inl])
      have "C \<longleftrightarrow> cc" unfolding C_def using c2 by (simp add: r)
      moreover have "\<not> D" unfolding D_def by (simp add: r DivisionProduct_fig2)
      ultimately show ?thesis by (simp add: r)
    next
      case t: (Inr t)
      note r = run_complete [OF Inr filt t]
      have "C \<longleftrightarrow> cc" unfolding C_def using c2 by (simp add: r ClassProduct_fig4)
      moreover have "D \<longleftrightarrow> dv" unfolding D_def using d4 by (simp add: r DivisionProduct_fig2)
      ultimately show ?thesis by simp
    qed
  qed
qed

text \<open>
  C8. The class-by-product chart is emitted, with its summary table, exactly when the
  columns \<open>CLASSE_CLIENT\<close> and \<open>PRODUIT\<close> are both present, and the division-by-product
  chart exactly when \<open>DV\<close> and \<open>PRODUIT\<close> are; otherwise the component emits nothing
  and, being a plain list of components, raises nothing. In a run, a chart of either
  kind among the emitted components implies its columns in the normalised sheet, and in
  a run that ends without exception the chart is there exactly when the columns are.
\<close>

theorem optional_charts_gated:
  "(has d ''CLASSE_CLIENT'' \<and> has d ''PRODUIT''
      \<longrightarrow> fig2 d = [ClassProduct (groupby_sum (pair_key CLASSE_CLIENT) un (rows d))])
   \<and> (\<not> (has d ''CLASSE_CLIENT'' \<and> has d ''PRODUIT'') \<longrightarrow> fig2 d = [])
   \<and> (has d ''DV'' \<and> has d ''PRODUIT''
      \<longrightarrow> fig4 d = [DivisionProduct (groupby_sum (pair_key DV) un (rows d))])
   \<and> (\<not> (has d ''DV'' \<and> has d ''PRODUIT'') \<longrightarrow> fig4 d = [])
   \<and> ((\<exists>g. ClassProduct g \<in> set (fst (run p raw sel)))
      \<longrightarrow> has (normalise_columns raw) ''CLASSE_CLIENT'' \<and> has (normalise_columns raw) ''PRODUIT'')
   \<and> ((\<exists>g. DivisionProduct g \<in> set (fst (run p raw sel)))
      \<longrightarrow> has (normalise_columns raw) ''DV'' \<and> has (normalise_columns raw) ''PRODUIT'')
   \<and> (snd (run p raw sel) = None
      \<longrightarrow> ((\<exists>g. ClassProduct g \<in> set (fst (run p raw sel)))
             \<longleftrightarrow> has (normalise_columns raw) ''CLASSE_CLIENT'' \<and> has (normalise_columns raw) ''PRODUIT'')
        \<and> ((\<exists>g. DivisionProduct g \<in> set (fst (run p raw sel)))
             \<longleftrightarrow> has (normalise_columns raw) ''DV'' \<and> has (normalise_columns raw) ''PRODUIT''))"
proof -
  have comp: "(has d ''CLASSE_CLIENT'' \<and> has d ''PRODUIT''
      \<longrightarrow> fig2 d = [ClassProduct (groupby_sum (pair_key CLASSE_CLIENT) un (rows d))])
   \<and> (\<not> (has d ''CLASSE_CLIENT'' \<and> has d ''PRODUIT'') \<longrightarrow> fig2 d = [])
   \<and> (has d ''DV'' \<and> has d ''PRODUIT''
      \<longrightarrow> fig4 d = [DivisionProduct (groupby_sum (pair_key DV) un (rows d))])
   \<and> (\<not> (has d ''DV'' \<and> has d ''PRODUIT'') \<longrightarrow> fig4 d = [])"
    by (simp add: fig2_def fig4_def)
  from comp gate_in_run [of p raw sel] show ?thesis by blast
qed

theorem optional_charts_gated_witness:
  "\<not> has (normalise_columns scenario) ''CLASSE_CLIENT'' \<and> \<not> has (normalise_columns scenario) ''DV''
   \<and> snd (run plain_number scenario (select [] [2020])) = None
   \<and> (\<nexists>g. ClassProduct g \<in> set (fst (run plain_number scenario (select [] [2020]))))
   \<and> (\<nexists>g. DivisionProduct g \<in> set (fst (run plain_number scenario (select [] [2020]))))
   \<and> has (normalise_columns scenario_full) ''CLASSE_CLIENT''
   \<and> has (normalise_columns scenario_full) ''DV''
   \<and> has (normalise_columns scenario_full) ''PRODUIT''
   \<and> snd (run plain_number scenario_full (select [] [2020])) = None
   \<and> ClassProduct [((ascii ''3'', ascii ''A''), 7), ((ascii ''3'', ascii ''B''), 3)]
         \<in> set (fst (run plain_number scenario_full (select [] [2020])))
   \<and> DivisionProduct [((ascii ''N'', ascii ''A''), 7), ((ascii ''N'', ascii ''B''), 3)]
         \<in> set (fst (run plain_number scenario_full (select [] [2020])))"
  using optional_charts_gated [where d = "normalise_columns scenario" and p = plain_number
      and raw = scenario and sel = "select [] [2020]"]
    optional_charts_gated [where d = "normalise_columns scenario_full" and p = plain_number
      and raw = scenario_full and sel = "select [] [2020]"]
  by (simp add: run_defs example_defs str_defs)

section \<open>Properties of the aggregations\<close>

lemma set_map_filter_conv: "set (List.map_filter f xs) = {y. \<exists>x\<in>set xs. f x = Some y}"
  by (induction xs) (auto split: option.splits)

lemma set_group_keys [simp]: "set (group_keys key rs) = {k. \<exists>r\<in>set rs. key r = Some k}"
  by (simp add: group_keys_def set_map_filter_conv)

lemma distinct_group_keys [simp]: "distinct (group_keys key rs)"
  by (simp add: group_keys_def)

lemma sorted_group_keys [simp]: "sorted (group_keys key rs)"
  by (simp add: group_keys_def)

lemma group_vals_absent: "\<not> (\<exists>r\<in>set rs. key r = Some k) \<Longrightarrow> group_vals key val rs k = []"
  by (auto simp: group_vals_def filter_empty_conv)

lemma map_of_groupby_sum:
  "map_of (groupby_sum key val rs) k =
     (if \<exists>r\<in>set rs. key r = Some k then Some (sum_list (group_vals key val rs k)) else None)"
  by (simp add: groupby_sum_def map_of_map_restrict restrict_map_def)

lemma map_of_groupby_mean:
  "map_of (groupby_mean key val rs) k =
     (if \<exists>r\<in>set rs. key r = Some k
      then Some (of_int (sum_list (group_vals key val rs k)) / of_nat (length (group_vals key val rs k)))
      else None)"
  by (simp add: groupby_mean_def map_of_map_restrict restrict_map_def)

lemma map_fst_reindex [simp]: "map fst (reindex idx fill s) = idx"
  by (simp add: reindex_def comp_def)

lemma length_reindex [simp]: "length (reindex idx fill s) = length idx"
  by (simp add: reindex_def)

lemma groupby_sum_or_zero:
  "(case map_of (groupby_sum key val rs) k of Some v \<Rightarrow> v | None \<Rightarrow> 0)
     = sum_list (group_vals key val rs k)"
  by (simp add: map_of_groupby_sum group_vals_absent)

lemma serie_closed:
  "serie d y = map (\<lambda>m. (m, month_sum d y m)) [1..12]"
proof -
  have "group_vals mois_num un (filter (\<lambda>r. Annee_saisie r = Some y) (rows d)) (Fin (of_int m))
          = map un (filter (\<lambda>r. Annee_saisie r = Some y \<and> mois_num r = Some (Fin (of_int m))) (rows d))" for m
    by (simp add: group_vals_def conj_commute)
  then show ?thesis
    by (simp add: serie_def reindex_def groupby_sum_or_zero month_sum_def)
qed

lemma year_month_key_iff:
  "year_month_key r = Some (y, q) \<longleftrightarrow> Annee_saisie r = Some y \<and> mois_num r = Some q"
  by (simp add: year_month_key_def split: option.splits)

lemma group_vals_selected:
  assumes "y \<in> set ys"
  shows "group_vals year_month_key un (filter (\<lambda>r. isin (Annee_saisie r) ys) rs) (y, q)
           = map un (filter (\<lambda>r. Annee_saisie r = Some y \<and> mois_num r = Some q) rs)"
proof -
  have "(isin (Annee_saisie r) ys \<and> year_month_key r = Some (y, q))
          \<longleftrightarrow> (Annee_saisie r = Some y \<and> mois_num r = Some q)" for r
    using assms by (auto simp: year_month_key_iff isin_def)
  then show ?thesis
    by (simp add: group_vals_def conj_commute)
qed

lemma mean_value:
  fixes d :: dataframe and ys :: "int list" and m :: int
  defines "rs \<equiv> filter (\<lambda>r. isin (Annee_saisie r) ys) (rows d)"
  defines "gm \<equiv> groupby_mean (\<lambda>g. Some (snd (fst g))) snd (groupby_sum year_month_key un rs)"
  shows "(case map_of gm (Fin (of_int m)) of Some v \<Rightarrow> v | None \<Rightarrow> 0)
           = (if years_with d ys m = [] then 0 else mean_of_years d (years_with d ys m) m)"
proof -
  define q :: fnum where "q = Fin (of_int m)"
  define K where "K = group_keys year_month_key rs"
  define S where "S k = sum_list (group_vals year_month_key un rs k)" for k
  define Kq where "Kq = filter (\<lambda>k. snd k = q) K"
  define Y where "Y = years_with d ys m"
  have g: "groupby_sum year_month_key un rs = map (\<lambda>k. (k, S k)) K"
    by (simp add: groupby_sum_def K_def S_def)
  have V: "group_vals (\<lambda>e. Some (snd (fst e))) snd (groupby_sum year_month_key un rs) q = map S Kq"
    by (simp add: g group_vals_def filter_map comp_def Kq_def)
  have dK: "distinct Kq" by (simp add: Kq_def K_def)
  have dY: "distinct Y" by (simp add: Y_def years_with_def)
  have setY: "set Y = {y \<in> set ys. \<exists>r\<in>set (rows d). Annee_saisie r = Some y \<and> mois_num r = Some q}"
    by (auto simp: Y_def years_with_def q_def)
  have setK: "set Kq = (\<lambda>y. (y, q)) ` set Y"
    by (auto simp: Kq_def K_def setY rs_def year_month_key_iff isin_def image_iff)
  have inj: "inj_on (\<lambda>y. (y, q)) (set Y)" by (simp add: inj_on_def)
  have "sum_list (map S Kq) = sum S (set Kq)"
    using dK by (rule sum_list_distinct_conv_sum_set)
  also have "\<dots> = sum (S \<circ> (\<lambda>y. (y, q))) (set Y)"
    unfolding setK using inj by (rule sum.reindex)
  also have "\<dots> = sum (\<lambda>y. month_sum d y m) (set Y)"
  proof (rule sum.cong)
    fix y assume "y \<in> set Y"
    then have "y \<in> set ys" by (simp add: setY)
    then show "(S \<circ> (\<lambda>y. (y, q))) y = month_sum d y m"
      by (simp add: S_def rs_def group_vals_selected month_sum_def q_def)
  qed simp
  also have "\<dots> = sum_list (map (\<lambda>y. month_sum d y m) Y)"
    using dY by (simp add: sum_list_distinct_conv_sum_set)
  finally have sums: "sum_list (map S Kq) = sum_list (map (\<lambda>y. month_sum d y m) Y)" .
  have "length Kq = card (set Kq)" using dK by (simp add: distinct_card)
  also have "\<dots> = card (set Y)" unfolding setK using inj by (rule card_image)
  also have "\<dots> = length Y" using dY by (simp add: distinct_card)
  finally have len: "length Kq = length Y" .
  have ex: "(\<exists>e\<in>set (groupby_sum year_month_key un rs). Some (snd (fst e)) = Some q) \<longleftrightarrow> Y \<noteq> []"
  proof -
    have "(\<exists>e\<in>set (groupby_sum year_month_key un rs). Some (snd (fst e)) = Some q) \<longleftrightarrow> set Kq \<noteq> {}"
      by (force simp: g Kq_def filter_empty_conv)
    also have "\<dots> \<longleftrightarrow> Y \<noteq> []" by (simp add: setK)
    finally show ?thesis .
  qed
  have "map_of gm q = (if Y \<noteq> [] then Some (of_int (sum_list (map S Kq)) / of_nat (length Kq)) else None)"
    unfolding gm_def by (simp only: map_of_groupby_mean ex V length_map)
  then show ?thesis
    by (simp add: sums len mean_of_years_def Y_def [symmetric] q_def [symmetric])
qed

lemma mean_closed:
  "mean d sel =
     map (\<lambda>m. (m, if years_with d (sel_mean_years sel) m = [] then 0
                   else mean_of_years d (years_with d (sel_mean_years sel) m) m)) [1..12]"
  by (simp add: mean_def reindex_def mean_value)

lemma month_sum_none:
  "filter (\<lambda>r. Annee_saisie r = Some y \<and> mois_num r = Some (Fin (of_int m))) (rows d) = []
   \<Longrightarrow> month_sum d y m = 0"
  by (simp add: month_sum_def)

lemma map_of_closed:
  "m \<in> {1..12} \<Longrightarrow> map_of (map (\<lambda>m. (m, f m)) [1..12]) m = Some (f m)"
  by (simp add: map_of_map_restrict restrict_map_def)

lemma years_with_none:
  assumes "filter (\<lambda>r. isin (Annee_saisie r) ys \<and> mois_num r = Some (Fin (of_int m))) (rows d) = []"
  shows "years_with d ys m = []"
  using assms by (auto simp: years_with_def filter_empty_conv isin_def)

text \<open>
  C6. Whatever the filtered dataset, the bar year, the line year and the averaging
  years, each of the three comparison series has exactly 12 entries, indexed by the
  months 1 to 12 in order, and its value is 0 at every month for which no record
  matches (the series' year, or one of the averaging years, with that resolved month).
\<close>

theorem comparison_series_twelve:
  "map fst (serie_bar d sel) = [1..12] \<and> length (serie_bar d sel) = 12
   \<and> map fst (serie_line d sel) = [1..12] \<and> length (serie_line d sel) = 12
   \<and> map fst (mean d sel) = [1..12] \<and> length (mean d sel) = 12
   \<and> (\<forall>m\<in>{1..12}.
        (filter (\<lambda>r. Annee_saisie r = Some (sel_year_bar sel) \<and> mois_num r = Some (Fin (of_int m))) (rows d) = []
           \<longrightarrow> map_of (serie_bar d sel) m = Some 0)
      \<and> (filter (\<lambda>r. Annee_saisie r = Some (sel_year_line sel) \<and> mois_num r = Some (Fin (of_int m))) (rows d) = []
           \<longrightarrow> map_of (serie_line d sel) m = Some 0)
      \<and> (filter (\<lambda>r. isin (Annee_saisie r) (sel_mean_years sel) \<and> mois_num r = Some (Fin (of_int m))) (rows d) = []
           \<longrightarrow> map_of (mean d sel) m = Some 0))"
proof -
  have idx: "map fst (serie_bar d sel) = [1..12]" "map fst (serie_line d sel) = [1..12]"
    "map fst (mean d sel) = [1..12]"
    by (simp_all add: serie_bar_def serie_line_def serie_def mean_def)
  have len: "length (serie_bar d sel) = 12" "length (serie_line d sel) = 12"
    "length (mean d sel) = 12"
    by (simp_all add: serie_bar_def serie_line_def serie_def mean_def)
  have zero: "(filter (\<lambda>r. Annee_saisie r = Some (sel_year_bar sel) \<and> mois_num r = Some (Fin (of_int m))) (rows d) = []
           \<longrightarrow> map_of (serie_bar d sel) m = Some 0)
      \<and> (filter (\<lambda>r. Annee_saisie r = Some (sel_year_line sel) \<and> mois_num r = Some (Fin (of_int m))) (rows d) = []
           \<longrightarrow> map_of (serie_line d sel) m = Some 0)
      \<and> (filter (\<lambda>r. isin (Annee_saisie r) (sel_mean_years sel) \<and> mois_num r = Some (Fin (of_int m))) (rows d) = []
           \<longrightarrow> map_of (mean d sel) m = Some 0)" if "m \<in> {1..12}" for m
    using that
    by (simp only: serie_bar_def serie_line_def serie_closed mean_closed map_of_closed)
       (simp add: month_sum_none years_with_none)
  from idx len zero show ?thesis by blast
qed

lemmas ref_defs = month_sum_def years_with_def mean_of_years_def flat_mean_def

lemma upto_1_12: "[1..12] = [1, 2, 3, 4, 5, 6, 7, 8, 9, 10, 11, 12 :: int]"
  by (simp add: upto.simps)

theorem comparison_series_twelve_witness:
  "filter (\<lambda>r. Annee_saisie r = Some (sel_year_bar (select [] [2019, 2020])) \<and> mois_num r = Some (Fin (of_int 2)))
     (rows two_years) = []
   \<and> filter (\<lambda>r. isin (Annee_saisie r) (sel_mean_years (select [] [2019, 2020])) \<and> mois_num r = Some (Fin (of_int 2)))
     (rows two_years) = []
   \<and> map_of (serie_bar two_years (select [] [2019, 2020])) 2 = Some 0
   \<and> map_of (mean two_years (select [] [2019, 2020])) 2 = Some 0
   \<and> serie_bar two_years (select [] [2019, 2020])
       = [(1, 6), (2, 0), (3, 0), (4, 0), (5, 0), (6, 0), (7, 0), (8, 0), (9, 0), (10, 0), (11, 0), (12, 0)]
   \<and> mean two_years (select [] [2019, 2020])
       = [(1, 5), (2, 0), (3, 0), (4, 0), (5, 0), (6, 0), (7, 0), (8, 0), (9, 0), (10, 0), (11, 0), (12, 0)]"
  using comparison_series_twelve [of two_years "select [] [2019, 2020]"]
  by (simp add: run_defs example_defs upto_1_12)

text \<open>
  C1, as the code has it. For every month of 1 to 12 the average series is 0 when no
  selected year has a record in that month, and otherwise the arithmetic mean, over the
  selected years that have at least one record in that month, of the year's sum of units
  for the month. A selected year without a record in the month is left out of the mean;
  it does not count as a sum of 0. The two-step mean is not the flat mean of the
  records' units: with January sums 4 and 6 it is 5, the flat mean of the three records
  is 10/3.
\<close>

theorem average_over_years_with_records:
  "mean d sel =
     map (\<lambda>m. (m, if years_with d (sel_mean_years sel) m = [] then 0
                   else mean_of_years d (years_with d (sel_mean_years sel) m) m)) [1..12]
   \<and> map_of (mean two_years (select [] [2019, 2020])) 1 = Some 5
   \<and> flat_mean two_years [2019, 2020] 1 = 10 / 3"
proof -
  have "map_of (mean two_years (select [] [2019, 2020])) 1 = Some 5"
    by (simp add: run_defs example_defs upto_1_12)
  moreover have "flat_mean two_years [2019, 2020] 1 = 10 / 3"
    by (simp add: ref_defs run_defs example_defs)
  ultimately show ?thesis by (simp only: mean_closed simp_thms)
qed

theorem average_over_years_with_records_witness:
  "mean gap_year (select [] [2005, 2006])
     = [(1, 4), (2, 6), (3, 0), (4, 0), (5, 0), (6, 0), (7, 0), (8, 0), (9, 0), (10, 0), (11, 0), (12, 0)]
   \<and> years_with gap_year [2005, 2006] 1 = [2005]
   \<and> mean_of_years gap_year [2005] 1 = 4"
  using average_over_years_with_records [of gap_year "select [] [2005, 2006]"]
  by (simp add: ref_defs run_defs example_defs upto_1_12)

text \<open>
  C1 as stated fails: with 2005 and 2006 selected and a record in January of 2005 only
  (4 units), the average series is 4 in January, while the mean over both selected years,
  2006 counting as 0, is 2.
\<close>

theorem average_all_selected_years_counterexample:
  "map_of (mean gap_year (select [] [2005, 2006])) 1 = Some 4
   \<and> mean_of_years gap_year (sel_mean_years (select [] [2005, 2006])) 1 = 2"
  by (simp add: ref_defs run_defs example_defs upto_1_12)

section \<open>Properties of the heatmap table\<close>

lemma month_year_key_iff:
  "month_year_key r = Some (q, y) \<longleftrightarrow> mois_num r = Some q \<and> Annee_saisie r = Some y"
  by (simp add: month_year_key_def split: option.splits)

lemma map_of_month_year:
  "map_of (groupby_sum month_year_key un (rows d)) (Fin (of_int m), y) = cell_value d m y"
proof -
  have "group_vals month_year_key un (rows d) (Fin (of_int m), y)
          = map un (filter (\<lambda>r. Annee_saisie r = Some y \<and> mois_num r = Some (Fin (of_int m))) (rows d))"
    by (simp add: group_vals_def month_year_key_iff conj_commute)
  then show ?thesis
    by (auto simp: map_of_groupby_sum cell_value_def month_sum_def month_year_key_iff)
qed

lemma set_unique [simp]: "set (unique xs) = set xs"
  by (simp add: unique_def)

lemma distinct_unique [simp]: "distinct (unique xs)"
  by (simp add: unique_def)

lemma set_remove_unused:
  "set occurring \<subseteq> set lev \<Longrightarrow> set (remove_unused lev occurring) = set occurring"
  by (auto simp: remove_unused_def)

lemma distinct_remove_unused: "distinct lev \<Longrightarrow> distinct (remove_unused lev occurring)"
  by (simp add: remove_unused_def)

lemma set_level_values [simp]: "set (level_values key rs) = {k. \<exists>r\<in>set rs. key r = Some k}"
  by (simp add: level_values_def set_map_filter_conv)

lemma distinct_level_values [simp]: "distinct (level_values key rs)"
  by (simp add: level_values_def)

lemma occurring_months:
  "set (map (fst \<circ> fst) (groupby_sum month_year_key un rs)) \<subseteq> set (level_values mois_num rs)"
  by (force simp: groupby_sum_def month_year_key_iff)

lemma occurring_years:
  "set (map (snd \<circ> fst) (groupby_sum month_year_key un rs)) \<subseteq> set (level_values Annee_saisie rs)"
  by (force simp: groupby_sum_def month_year_key_iff)

lemma set_occurring_years:
  "set (map (snd \<circ> fst) (groupby_sum month_year_key un rs))
     = {y. \<exists>r\<in>set rs. mois_num r \<noteq> None \<and> Annee_saisie r = Some y}"
  by (force simp: groupby_sum_def month_year_key_iff image_iff)

lemma unstack_row_absent:
  assumes "set (map (fst \<circ> fst) g) \<subseteq> set months"
    and "q \<notin> set (pv_index (unstack months years g))"
  shows "map_of g (q, y) = None"
proof -
  have "pv_index (unstack months years g) = remove_unused months (map (fst \<circ> fst) g)"
    by (simp add: unstack_def Let_def)
  with assms have "q \<notin> set (map (fst \<circ> fst) g)"
    by (simp add: set_remove_unused)
  then have "(q, y) \<notin> fst ` set g" by force
  then show ?thesis by (simp add: map_of_eq_None_iff)
qed

lemma reindex_rows_unstack:
  assumes "set (map (fst \<circ> fst) g) \<subseteq> set months"
  shows "reindex_rows idx (unstack months years g) =
     \<lparr>pv_index = idx, pv_columns = pv_columns (unstack months years g),
      pv_values = map (\<lambda>m. map (\<lambda>y. map_of g (Fin (of_int m), y))
                              (pv_columns (unstack months years g))) idx\<rparr>"
proof -
  let ?t = "unstack months years g"
  let ?f = "\<lambda>q. map (\<lambda>y. map_of g (q, y)) (pv_columns ?t)"
  have vals: "pv_values ?t = map ?f (pv_index ?t)"
    by (simp add: unstack_def Let_def)
  have "(case map_of (zip (pv_index ?t) (pv_values ?t)) q of
           Some vs \<Rightarrow> vs | None \<Rightarrow> map (\<lambda>y. None) (pv_columns ?t)) = ?f q" for q
  proof (cases "q \<in> set (pv_index ?t)")
    case True
    then show ?thesis by (simp add: vals map_of_zip_map)
  next
    case False
    then show ?thesis by (simp add: vals map_of_zip_map unstack_row_absent [OF assms])
  qed
  then show ?thesis by (simp add: reindex_rows_def)
qed

lemma pivot_columns:
  "pv_columns (pivot d)
     = remove_unused (level_values Annee_saisie (rows d))
         (map (snd \<circ> fst) (groupby_sum month_year_key un (rows d)))"
  by (simp add: pivot_def reindex_rows_def unstack_def Let_def)

lemma set_pivot_columns:
  "set (pv_columns (pivot d)) = {y. \<exists>r\<in>set (rows d). mois_num r \<noteq> None \<and> Annee_saisie r = Some y}"
  by (simp only: pivot_columns set_remove_unused [OF occurring_years] set_occurring_years)

lemma distinct_pivot_columns: "distinct (pv_columns (pivot d))"
  by (simp add: pivot_columns distinct_remove_unused)

lemma pivot_closed:
  "pivot d =
     \<lparr>pv_index = [1..12], pv_columns = pv_columns (pivot d),
      pv_values = map (\<lambda>m. map (cell_value d m) (pv_columns (pivot d))) [1..12]\<rparr>"
proof -
  let ?t = "unstack (level_values mois_num (rows d)) (level_values Annee_saisie (rows d))
              (groupby_sum month_year_key un (rows d))"
  have cols: "pv_columns (pivot d) = pv_columns ?t"
    by (simp add: pivot_def reindex_rows_def)
  show ?thesis
    unfolding cols
    by (simp add: pivot_def reindex_rows_unstack [OF occurring_months] map_of_month_year)
qed

lemma pivot_index: "pv_index (pivot d) = [1..12]"
  by (simp add: pivot_def reindex_rows_def)

lemma pivot_values:
  "pv_values (pivot d) = map (\<lambda>m. map (cell_value d m) (pv_columns (pivot d))) [1..12]"
proof -
  have "pv_values (pivot d)
      = pv_values \<lparr>pv_index = [1..12], pv_columns = pv_columns (pivot d),
          pv_values = map (\<lambda>m. map (cell_value d m) (pv_columns (pivot d))) [1..12]\<rparr>"
    using pivot_closed [of d] by simp
  then show ?thesis by simp
qed



lemma cell_or_zero: "(case cell_value d m y of None \<Rightarrow> 0 | Some v \<Rightarrow> v) = month_sum d y m"
  by (auto simp: cell_value_def month_sum_def filter_empty_conv)

text \<open>
  C7, as the code has it. The rows of the heatmap table are the months 1 to 12 in
  order, whether or not they have data, each with one cell per column. The columns are,
  without repetition, exactly the years of the aggregated records that have both a year
  and a resolved month, whatever that month is. A cell is the sum of units of the records
  of its month and year and is empty when there is none; the chart shows the negated
  sums, 0 for an empty cell.
\<close>

theorem heatmap_rows_and_columns:
  "pv_index (pivot d) = [1..12]
   \<and> distinct (pv_columns (pivot d))
   \<and> set (pv_columns (pivot d))
       = {y. \<exists>r\<in>set (rows d). mois_num r \<noteq> None \<and> Annee_saisie r = Some y}
   \<and> pv_values (pivot d) = map (\<lambda>m. map (cell_value d m) (pv_columns (pivot d))) [1..12]
   \<and> fig1_z (pivot d) = map (\<lambda>m. map (\<lambda>y. - month_sum d y m) (pv_columns (pivot d))) [1..12]"
proof -
  have "fig1_z (pivot d) = map (\<lambda>m. map (\<lambda>y. - month_sum d y m) (pv_columns (pivot d))) [1..12]"
    by (simp add: fig1_z_def pivot_values comp_def cell_or_zero)
  then show ?thesis
    by (simp add: pivot_index distinct_pivot_columns set_pivot_columns pivot_values [symmetric])
qed

theorem heatmap_rows_and_columns_witness:
  "pivot two_years =
     \<lparr>pv_index = [1, 2, 3, 4, 5, 6, 7, 8, 9, 10, 11, 12], pv_columns = [2019, 2020],
      pv_values = [[Some 4, Some 6], [None, None], [None, None], [None, None], [None, None],
                   [None, None], [None, None], [None, None], [None, None], [None, None],
                   [None, None], [None, None]]\<rparr>
   \<and> pivot unused_year =
     \<lparr>pv_index = [1, 2, 3, 4, 5, 6, 7, 8, 9, 10, 11, 12], pv_columns = [2020, 2019],
      pv_values = [[Some 1, None], [None, Some 1], [None, None], [None, None], [None, None],
                   [None, None], [None, None], [None, None], [None, None], [None, None],
                   [None, None], [None, None]]\<rparr>"
proof -
  have i: "pv_index (pivot two_years) = [1, 2, 3, 4, 5, 6, 7, 8, 9, 10, 11, 12]"
    using heatmap_rows_and_columns [of two_years] by (simp add: upto_1_12)
  have "pivot two_years =
     \<lparr>pv_index = pv_index (pivot two_years), pv_columns = [2019, 2020],
      pv_values = [[Some 4, Some 6], [None, None], [None, None], [None, None], [None, None],
                   [None, None], [None, None], [None, None], [None, None], [None, None],
                   [None, None], [None, None]]\<rparr>"
    by (simp add: run_defs example_defs upto_1_12)
  moreover have "pivot unused_year =
     \<lparr>pv_index = [1, 2, 3, 4, 5, 6, 7, 8, 9, 10, 11, 12], pv_columns = [2020, 2019],
      pv_values = [[Some 1, None], [None, Some 1], [None, None], [None, None], [None, None],
                   [None, None], [None, None], [None, None], [None, None], [None, None],
                   [None, None], [None, None]]\<rparr>"
    by (simp add: run_defs example_defs upto_1_12)
  ultimately show ?thesis using i by simp
qed

text \<open>
  C7 as stated fails: a sheet with a record of 2019 that has no month and a record of
  January 2020 loads without error and has the years 2019 and 2020, but the only column
  of its heatmap table is 2020.
\<close>

theorem heatmap_columns_counterexample:
  "map_sum id YEARS (load plain_number no_month) = Inr [2019, 2020]
   \<and> snd (run plain_number no_month (select [] [2020])) = None
   \<and> hd (fst (run plain_number no_month (select [] [2020])))
       = Heatmap \<lparr>pv_index = [1, 2, 3, 4, 5, 6, 7, 8, 9, 10, 11, 12], pv_columns = [2020],
                  pv_values = [[Some 4], [None], [None], [None], [None], [None], [None], [None],
                               [None], [None], [None], [None]]\<rparr>
                 [[- 4], [0], [0], [0], [0], [0], [0], [0], [0], [0], [0], [0]]"
  by (simp add: run_defs example_defs str_defs upto_1_12)

lemma pivot_rows_cong: "rows d = rows d' \<Longrightarrow> pivot d = pivot d'"
  by (simp add: pivot_def)

text \<open>
  C2, as the code has it. The heatmap is computed from the product-filtered view
  \<open>df_filt\<close>, like the other charts: with a non-empty selection it aggregates the records
  whose product, read as text, is selected. It is the table of the unfiltered dataset when
  every record's product is in the selection (and when the selection is empty).
\<close>

theorem heatmap_of_filtered_view:
  assumes "df_filt (df s) (sel_prods sel) = Inr d"
  shows "hd (fst (render s sel)) = Heatmap (pivot d) (fig1_z (pivot d))
         \<and> (sel_prods sel \<noteq> [] \<longrightarrow>
              rows d = filter (\<lambda>r. astype_str (PRODUIT r) \<in> set (sel_prods sel)) (rows (df s)))
         \<and> (sel_prods sel = [] \<longrightarrow> pivot d = pivot (df s))
         \<and> ((\<forall>r\<in>set (rows (df s)). astype_str (PRODUIT r) \<in> set (sel_prods sel))
              \<longrightarrow> pivot d = pivot (df s))"
proof -
  have hd: "hd (fst (render s sel)) = Heatmap (pivot d) (fig1_z (pivot d))"
    using assms by (simp add: render_def Let_def split: sum.splits)
  have rows: "sel_prods sel \<noteq> [] \<Longrightarrow>
      rows d = filter (\<lambda>r. astype_str (PRODUIT r) \<in> set (sel_prods sel)) (rows (df s))"
    using assms by (auto simp: df_filt_def split: if_splits)
  have empty: "sel_prods sel = [] \<Longrightarrow> pivot d = pivot (df s)"
    using assms by (simp add: df_filt_def)
  have all: "pivot d = pivot (df s)"
    if "\<forall>r\<in>set (rows (df s)). astype_str (PRODUIT r) \<in> set (sel_prods sel)"
  proof (cases "sel_prods sel = []")
    case True
    then show ?thesis by (rule empty)
  next
    case False
    with rows that have "rows d = rows (df s)" by simp
    then show ?thesis by (rule pivot_rows_cong)
  qed
  from hd rows empty all show ?thesis by blast
qed

theorem heatmap_of_filtered_view_witness:
  "df_filt (df \<lparr>df = two_years, YEARS = [2019, 2020], PRODS = [ascii ''A'', ascii ''B'']\<rparr>)
       (sel_prods (select [ascii ''A''] [2019]))
     = Inr (frame [resolved_row (Some (Fin 1)) (Some 2019) (Some (ascii ''A'')) 4,
                   resolved_row (Some (Fin 1)) (Some 2020) (Some (ascii ''A'')) 3])
   \<and> hd (fst (render \<lparr>df = two_years, YEARS = [2019, 2020], PRODS = [ascii ''A'', ascii ''B'']\<rparr>
               (select [ascii ''A''] [2019])))
     = Heatmap (pivot (frame [resolved_row (Some (Fin 1)) (Some 2019) (Some (ascii ''A'')) 4,
                              resolved_row (Some (Fin 1)) (Some 2020) (Some (ascii ''A'')) 3]))
         (fig1_z (pivot (frame [resolved_row (Some (Fin 1)) (Some 2019) (Some (ascii ''A'')) 4,
                                resolved_row (Some (Fin 1)) (Some 2020) (Some (ascii ''A'')) 3])))
   \<and> pv_values (pivot (frame [resolved_row (Some (Fin 1)) (Some 2019) (Some (ascii ''A'')) 4,
                              resolved_row (Some (Fin 1)) (Some 2020) (Some (ascii ''A'')) 3]))
     = [[Some 4, Some 3], [None, None], [None, None], [None, None], [None, None], [None, None],
        [None, None], [None, None], [None, None], [None, None], [None, None], [None, None]]"
proof -
  let ?s = "\<lparr>df = two_years, YEARS = [2019, 2020], PRODS = [ascii ''A'', ascii ''B'']\<rparr>"
  let ?d = "frame [resolved_row (Some (Fin 1)) (Some 2019) (Some (ascii ''A'')) 4,
                   resolved_row (Some (Fin 1)) (Some 2020) (Some (ascii ''A'')) 3]"
  have f: "df_filt (df ?s) (sel_prods (select [ascii ''A''] [2019])) = Inr ?d"
    by (simp add: df_filt_def has_def astype_str_def example_defs ascii_def)
  have v: "pv_values (pivot ?d)
     = [[Some 4, Some 3], [None, None], [None, None], [None, None], [None, None], [None, None],
        [None, None], [None, None], [None, None], [None, None], [None, None], [None, None]]"
    by (simp add: run_defs example_defs upto_1_12)
  from heatmap_of_filtered_view [OF f] f v show ?thesis by blast
qed

text \<open>
  C2 as stated fails: on the sheet of the specification's scenario, selecting product A
  alone gives 5 in January 2020, where the table without product filter has 8.
\<close>

theorem heatmap_unfiltered_counterexample:
  "hd (fst (run plain_number scenario (select [ascii ''A''] [2020])))
     = Heatmap \<lparr>pv_index = [1, 2, 3, 4, 5, 6, 7, 8, 9, 10, 11, 12], pv_columns = [2020],
                pv_values = [[Some 5], [Some 2], [None], [None], [None], [None], [None], [None],
                             [None], [None], [None], [None]]\<rparr>
         [[- 5], [- 2], [0], [0], [0], [0], [0], [0], [0], [0], [0], [0]]
   \<and> hd (fst (run plain_number scenario (select [] [2020])))
     = Heatmap \<lparr>pv_index = [1, 2, 3, 4, 5, 6, 7, 8, 9, 10, 11, 12], pv_columns = [2020],
                pv_values = [[Some 8], [Some 2], [None], [None], [None], [None], [None], [None],
                             [None], [None], [None], [None]]\<rparr>
         [[- 8], [- 2], [0], [0], [0], [0], [0], [0], [0], [0], [0], [0]]"
  by (simp add: run_defs example_defs str_defs upto_1_12)

section \<open>Records without a month of 1 to 12\<close>

















lemma infinite_month_aborts:
  "run plain_number month_infinite (select [] [2020]) = ([], Some OverflowError)"
  by (simp add: run_defs example_defs str_defs)


end
